theory Spec2Isabelle
  imports
    Complex_Main
    "HOL-Library.Char_ord"
    "HOL-Library.List_Lexorder"
    "HOL-Library.Product_Lexorder"
begin

section \<open>BirdWeather client and cache: data model\<close>

text \<open>
  The two modules of the repository, \<^verbatim>\<open>fetch_data.py\<close> (GraphQL client) and
  \<^verbatim>\<open>data_store.py\<close> (Parquet cache and local aggregation), are embedded as
  HOL functions. Conventions used throughout:
  \<^item> a Python exception is a value of type \<open>exn\<close>; a function that may raise returns
    \<open>exn + 'a\<close>, with \<open>Inl\<close> the exception;
  \<^item> an instant (an ISO-8601 text of the API, a \<^verbatim>\<open>datetime\<close>, a file's mtime) is
    the number of microseconds since the epoch, an \<open>int\<close>; a calendar date is the
    number of days since the epoch. Parsing and time-zone arithmetic are not modelled;
  \<^item> a JSON number that polars stores as \<^verbatim>\<open>Float64\<close> is carried as a rational;
  \<^item> a polars \<^verbatim>\<open>DataFrame\<close> is a schema (column names with their dtypes, in
    order) and a list of rows; the rows of each table are a record with one field per
    key of the dict the source builds for it;
  \<^item> the network is a parameter of each fetch function: a function \<open>q\<close> from the
    variables of the query to the answer, typed as the query asks for it, or to the
    exception that \<^verbatim>\<open>query_graphql\<close> or the indexing of its answer raises;
  \<^item> the fetch functions are embedded for a given \<^verbatim>\<open>station_id\<close>, as the sync
    functions call them; the clock \<^verbatim>\<open>datetime.now\<close> is the parameter \<open>now\<close>.
\<close>

type_synonym instant = int
type_synonym float64 = rat

datatype dtype = Utf8 | Int64 | Float64 | Date | Datetime | Null

record 'r DataFrame =
  schema :: "(string \<times> dtype) list"
  rows :: "'r list"

definition height :: "'r DataFrame \<Rightarrow> nat" where
  "height df = length (rows df)"

definition columns :: "'r DataFrame \<Rightarrow> string list" where
  "columns df = map fst (schema df)"

datatype exn =
    Timeout
  | ConnectionError
  | HTTPError
  | RuntimeError string
  | KeyError string
  | SchemaError
  | ColumnNotFoundError string

section \<open>\<^verbatim>\<open>query_graphql\<close>: one request with retries\<close>

text \<open>
  What one pass through the \<^verbatim>\<open>try\<close> block meets: either
  \<^verbatim>\<open>requests.post\<close>, \<^verbatim>\<open>raise_for_status\<close> or \<^verbatim>\<open>resp.json\<close> raises, or a JSON
  object arrives. Of that object the code reads whether the key \<^verbatim>\<open>errors\<close> is
  present (with the payload) and the value under \<^verbatim>\<open>data\<close>.
\<close>

record 'd graphql_result =
  errors :: "string option"
  data :: "'d option"

datatype 'd post_outcome = Raises exn | Responds "'d graphql_result"

text \<open>The effects of the function that a caller can observe: requests sent and sleeps.\<close>

datatype event = Post | Sleep nat

text \<open>The \<^verbatim>\<open>except (Timeout, ConnectionError)\<close> clause.\<close>

fun transient :: "exn \<Rightarrow> bool" where
  "transient Timeout = True"
| "transient ConnectionError = True"
| "transient _ = False"

text \<open>
  \<^verbatim>\<open>for attempt in range(retries)\<close>: \<open>post a\<close> is what the attempt numbered \<open>a\<close>
  meets. A loop that ends without returning makes the Python function return
  \<^verbatim>\<open>None\<close>, here \<open>Inr None\<close>.
\<close>

function query_attempts ::
  "(nat \<Rightarrow> 'd post_outcome) \<Rightarrow> int \<Rightarrow> nat \<Rightarrow> event list \<Rightarrow> (exn + 'd option) \<times> event list"
where
  "query_attempts post retries attempt tr =
     (if int attempt < retries then
        (case post attempt of
           Responds result \<Rightarrow>
             (case errors result of
                Some payload \<Rightarrow> (Inl (RuntimeError payload), tr @ [Post])
              | None \<Rightarrow>
                  (case data result of
                     None \<Rightarrow> (Inl (KeyError ''data''), tr @ [Post])
                   | Some d \<Rightarrow> (Inr (Some d), tr @ [Post])))
         | Raises e \<Rightarrow>
             if transient e then
               (if int attempt < retries - 1
                then query_attempts post retries (attempt + 1) (tr @ [Post, Sleep (2 ^ attempt)])
                else (Inl e, tr @ [Post]))
             else (Inl e, tr @ [Post]))
      else (Inr None, tr))"
  by pat_completeness auto
termination
  by (relation "measure (\<lambda>(post, retries, attempt, tr). nat (retries - int attempt))") auto

declare query_attempts.simps [simp del]

definition query_graphql ::
  "(nat \<Rightarrow> 'd post_outcome) \<Rightarrow> int \<Rightarrow> (exn + 'd option) \<times> event list" where
  "query_graphql post retries = query_attempts post retries 0 []"

text \<open>What the attempt that ends the loop hands to the caller.\<close>

fun final_outcome :: "'d post_outcome \<Rightarrow> exn + 'd option" where
  "final_outcome (Raises e) = Inl e"
| "final_outcome (Responds result) =
     (case errors result of
        Some payload \<Rightarrow> Inl (RuntimeError payload)
      | None \<Rightarrow> (case data result of None \<Rightarrow> Inl (KeyError ''data'') | Some d \<Rightarrow> Inr (Some d)))"

text \<open>The requests and sleeps of \<open>k\<close> failed attempts numbered from \<open>a\<close>.\<close>

definition backoff_trace :: "nat \<Rightarrow> nat \<Rightarrow> event list" where
  "backoff_trace a k = concat (map (\<lambda>i. [Post, Sleep (2 ^ i)]) [a..<a + k])"

definition is_transient_failure :: "'d post_outcome \<Rightarrow> bool" where
  "is_transient_failure out = (case out of Raises e \<Rightarrow> transient e | Responds _ \<Rightarrow> False)"

section \<open>\<^verbatim>\<open>get_detections\<close>: cursor pagination with a stop boundary\<close>

text \<open>
  The part of the GraphQL answers that the fetch functions read. A \<^verbatim>\<open>species\<close>
  object carries the fields a query asks for; a field that is absent or null is
  \<open>None\<close>, which is what \<^verbatim>\<open>dict.get\<close> returns for both.
\<close>

record species =
  sp_commonName :: string
  sp_scientificName :: string
  sp_imageUrl :: "string option"
  sp_thumbnailUrl :: "string option"
  sp_color :: "string option"
  sp_ebirdUrl :: "string option"
  sp_wikipediaSummary :: "string option"

record detection_node =
  node_id :: string
  node_timestamp :: instant
  node_speciesId :: string
  node_species :: species
  node_confidence :: float64
  node_probability :: "float64 option"
  node_score :: float64
  node_certainty :: string

record 'n page =
  nodes :: "'n list"
  hasNextPage :: bool
  endCursor :: "string option"

text \<open>The \<^verbatim>\<open>variables\<close> dict of a paginated query; \<^verbatim>\<open>after\<close> is set only for a truthy cursor.\<close>

record variables =
  var_id :: string
  var_first :: int
  var_after :: "string option"

text \<open>A row of the detections table: the dict appended to \<^verbatim>\<open>all_nodes\<close>.\<close>

record detection =
  d_id :: string
  d_timestamp :: instant
  d_speciesId :: string
  d_commonName :: string
  d_scientificName :: string
  d_confidence :: float64
  d_probability :: "float64 option"
  d_score :: float64
  d_certainty :: string

definition detection_of_node :: "detection_node \<Rightarrow> detection" where
  "detection_of_node node =
     \<lparr>d_id = node_id node,
      d_timestamp = node_timestamp node,
      d_speciesId = node_speciesId node,
      d_commonName = sp_commonName (node_species node),
      d_scientificName = sp_scientificName (node_species node),
      d_confidence = node_confidence node,
      d_probability = node_probability node,
      d_score = node_score node,
      d_certainty = node_certainty node\<rparr>"

text \<open>
  The two tests of the inner loop, in the order of the source:
  \<^verbatim>\<open>stop_before is not None and node_ts <= stop_before\<close>, then
  \<^verbatim>\<open>earliest_dt is not None and node_ts < earliest_dt\<close>.
\<close>

definition at_boundary :: "instant option \<Rightarrow> instant option \<Rightarrow> instant \<Rightarrow> bool" where
  "at_boundary stop_before earliest_dt node_ts =
     ((case stop_before of Some t \<Rightarrow> node_ts \<le> t | None \<Rightarrow> False) \<or>
      (case earliest_dt of Some t \<Rightarrow> node_ts < t | None \<Rightarrow> False))"

abbreviation bnd :: "instant option \<Rightarrow> instant option \<Rightarrow> detection_node \<Rightarrow> bool" where
  "bnd stop_before earliest_dt node \<equiv> at_boundary stop_before earliest_dt (node_timestamp node)"

text \<open>
  \<^verbatim>\<open>for node in nodes\<close>: returns the grown \<^verbatim>\<open>all_nodes\<close> and \<^verbatim>\<open>hit_boundary\<close>.
\<close>

fun scan_nodes ::
  "instant option \<Rightarrow> instant option \<Rightarrow> detection_node list \<Rightarrow> detection list
     \<Rightarrow> detection list \<times> bool"
where
  "scan_nodes stop_before earliest_dt [] all_nodes = (all_nodes, False)"
| "scan_nodes stop_before earliest_dt (node # rest) all_nodes =
     (if at_boundary stop_before earliest_dt (node_timestamp node) then (all_nodes, True)
      else scan_nodes stop_before earliest_dt rest (all_nodes @ [detection_of_node node]))"

definition truthy :: "string option \<Rightarrow> bool" where
  "truthy cursor = (case cursor of None \<Rightarrow> False | Some c \<Rightarrow> c \<noteq> [])"

text \<open>
  \<^verbatim>\<open>for page_num in range(max_pages)\<close>, with the number of iterations left as the
  recursion argument. \<open>q\<close> stands for \<^verbatim>\<open>query_graphql(query, variables)\<close> followed
  by \<^verbatim>\<open>data["station"]["detections"]\<close>. Beside \<^verbatim>\<open>all_nodes\<close> the loop returns
  the requests it has sent, in order.
\<close>

fun fetch_detection_pages ::
  "(variables \<Rightarrow> exn + detection_node page) \<Rightarrow> string \<Rightarrow> int
     \<Rightarrow> instant option \<Rightarrow> instant option
     \<Rightarrow> nat \<Rightarrow> string option \<Rightarrow> detection list \<Rightarrow> variables list
     \<Rightarrow> exn + detection list \<times> variables list"
where
  "fetch_detection_pages q station_id page_size stop_before earliest_dt 0 cursor all_nodes sent =
     Inr (all_nodes, sent)"
| "fetch_detection_pages q station_id page_size stop_before earliest_dt (Suc n) cursor all_nodes sent =
     (let vars = \<lparr>var_id = station_id, var_first = page_size,
                   var_after = (if truthy cursor then cursor else None)\<rparr>
      in case q vars of
           Inl err \<Rightarrow> Inl err
         | Inr det \<Rightarrow>
             if nodes det = [] then Inr (all_nodes, sent @ [vars])
             else
               (case scan_nodes stop_before earliest_dt (nodes det) all_nodes of
                  (all_nodes', hit_boundary) \<Rightarrow>
                    if hit_boundary \<or> \<not> hasNextPage det then Inr (all_nodes', sent @ [vars])
                    else fetch_detection_pages q station_id page_size stop_before earliest_dt
                           n (endCursor det) all_nodes' (sent @ [vars])))"

text \<open>The explicitly typed empty table of the source.\<close>

definition detections_empty_schema :: "(string \<times> dtype) list" where
  "detections_empty_schema =
     [(''id'', Utf8), (''timestamp'', Utf8), (''speciesId'', Utf8), (''commonName'', Utf8),
      (''scientificName'', Utf8), (''confidence'', Float64), (''probability'', Float64),
      (''score'', Float64), (''certainty'', Utf8)]"

text \<open>
  \<^verbatim>\<open>pl.DataFrame(rows)\<close> on a list of dicts: an empty list gives a table with no
  columns at all; otherwise the column names are the keys of the dicts, and a column
  that holds only \<^verbatim>\<open>None\<close> gets the dtype \<^verbatim>\<open>Null\<close>. The dtypes of the other
  columns are given per table (\<open>infer\<close>), after the conversions the source applies
  with \<^verbatim>\<open>with_columns\<close>.
\<close>

definition frame_of_dicts :: "('r list \<Rightarrow> (string \<times> dtype) list) \<Rightarrow> 'r list \<Rightarrow> 'r DataFrame" where
  "frame_of_dicts infer rs =
     (if rs = [] then \<lparr>schema = [], rows = []\<rparr> else \<lparr>schema = infer rs, rows = rs\<rparr>)"

definition nullable_dtype :: "dtype \<Rightarrow> 'a option list \<Rightarrow> dtype" where
  "nullable_dtype t vs = (if list_all (\<lambda>v. v = None) vs then Null else t)"

definition detections_schema :: "detection list \<Rightarrow> (string \<times> dtype) list" where
  "detections_schema all_nodes =
     [(''id'', Utf8), (''timestamp'', Datetime), (''speciesId'', Utf8), (''commonName'', Utf8),
      (''scientificName'', Utf8), (''confidence'', Float64),
      (''probability'', nullable_dtype Float64 (map d_probability all_nodes)),
      (''score'', Float64), (''certainty'', Utf8)]"

text \<open>
  \<^verbatim>\<open>get_detections\<close>. \<open>earliest_dt\<close> is the parsed \<^verbatim>\<open>earliest_detection_at\<close>
  (\<open>None\<close> when that is \<^verbatim>\<open>None\<close> or empty). The traced variant also returns the
  requests sent.
\<close>

definition get_detections_traced ::
  "(variables \<Rightarrow> exn + detection_node page) \<Rightarrow> string \<Rightarrow> int \<Rightarrow> int
     \<Rightarrow> instant option \<Rightarrow> instant option
     \<Rightarrow> exn + detection DataFrame \<times> variables list"
where
  "get_detections_traced q station_id page_size max_pages stop_before earliest_dt =
     (case fetch_detection_pages q station_id page_size stop_before earliest_dt
             (nat max_pages) None [] [] of
        Inl err \<Rightarrow> Inl err
      | Inr (all_nodes, sent) \<Rightarrow>
          Inr (if all_nodes = [] then \<lparr>schema = detections_empty_schema, rows = []\<rparr>
               else frame_of_dicts detections_schema all_nodes,
               sent))"

definition get_detections ::
  "(variables \<Rightarrow> exn + detection_node page) \<Rightarrow> string \<Rightarrow> int \<Rightarrow> int
     \<Rightarrow> instant option \<Rightarrow> instant option \<Rightarrow> exn + detection DataFrame"
where
  "get_detections q station_id page_size max_pages stop_before earliest_dt =
     map_sum id fst (get_detections_traced q station_id page_size max_pages stop_before earliest_dt)"

text \<open>The nodes that the requests \<open>sent\<close> were answered with, in order.\<close>

definition received :: "(variables \<Rightarrow> exn + 'n page) \<Rightarrow> variables list \<Rightarrow> 'n list" where
  "received q sent = concat (map (\<lambda>vars. case q vars of Inl _ \<Rightarrow> [] | Inr det \<Rightarrow> nodes det) sent)"

text \<open>
  A station used for the concrete runs below: two pages of detections, newest first;
  any request beyond them times out.
\<close>

definition example_node :: "string \<Rightarrow> instant \<Rightarrow> string \<Rightarrow> detection_node" where
  "example_node i t sp =
     \<lparr>node_id = i, node_timestamp = t, node_speciesId = sp,
      node_species = \<lparr>sp_commonName = ''Robin'', sp_scientificName = ''Turdus'',
        sp_imageUrl = None, sp_thumbnailUrl = None, sp_color = None, sp_ebirdUrl = None,
        sp_wikipediaSummary = None\<rparr>,
      node_confidence = 9 / 10, node_probability = None, node_score = 1,
      node_certainty = ''almost_certain''\<rparr>"

definition example_station :: "variables \<Rightarrow> exn + detection_node page" where
  "example_station vars =
     (case var_after vars of
        None \<Rightarrow> Inr \<lparr>nodes = [example_node ''5'' 50 ''a'', example_node ''4'' 40 ''b''],
                      hasNextPage = True, endCursor = Some ''c1''\<rparr>
      | Some c \<Rightarrow>
          if c = ''c1''
          then Inr \<lparr>nodes = [example_node ''3'' 30 ''a'', example_node ''2'' 20 ''a'',
                              example_node ''1'' 10 ''b''],
                     hasNextPage = True, endCursor = Some ''c2''\<rparr>
          else Inl Timeout)"

section \<open>The other fetch functions\<close>

text \<open>
  Each takes the answer of its query as a function \<open>q\<close> of the variables and
  flattens it into rows. A \<^verbatim>\<open>period\<close> dict is a list of key-value pairs; it is sent
  only when truthy, that is non-empty.
\<close>

type_synonym period = "(string \<times> string) list"

definition period_var :: "period option \<Rightarrow> period option" where
  "period_var period = (case period of None \<Rightarrow> None | Some p \<Rightarrow> if p = [] then None else Some p)"

subsection \<open>\<^verbatim>\<open>get_top_species\<close>\<close>

record top_species_entry =
  ts_speciesId :: string
  ts_count :: int
  ts_averageProbability :: "float64 option"
  ts_breakdown :: "(string \<times> int option) list option"
  ts_species :: species

record top_species_vars =
  tv_id :: string
  tv_limit :: int
  tv_period :: "period option"

record top_species_row =
  t_speciesId :: string
  t_commonName :: string
  t_scientificName :: string
  t_imageUrl :: "string option"
  t_thumbnailUrl :: "string option"
  t_color :: "string option"
  t_ebirdUrl :: "string option"
  t_wikipediaSummary :: "string option"
  t_count :: int
  t_almostCertain :: "int option"
  t_veryLikely :: "int option"
  t_uncertain :: "int option"
  t_unlikely :: "int option"
  t_averageProbability :: "float64 option"

text \<open>\<^verbatim>\<open>bd.get(key, 0)\<close>: \<open>0\<close> for an absent key, the stored value (maybe null) otherwise.\<close>

definition get_or_zero :: "(string \<times> int option) list \<Rightarrow> string \<Rightarrow> int option" where
  "get_or_zero bd k = (case map_of bd k of None \<Rightarrow> Some 0 | Some v \<Rightarrow> v)"

definition top_species_row_of :: "top_species_entry \<Rightarrow> top_species_row" where
  "top_species_row_of sp =
     (let species = ts_species sp;
          bd = (case ts_breakdown sp of None \<Rightarrow> [] | Some b \<Rightarrow> b)
      in \<lparr>t_speciesId = ts_speciesId sp,
          t_commonName = sp_commonName species,
          t_scientificName = sp_scientificName species,
          t_imageUrl = sp_imageUrl species,
          t_thumbnailUrl = sp_thumbnailUrl species,
          t_color = sp_color species,
          t_ebirdUrl = sp_ebirdUrl species,
          t_wikipediaSummary = sp_wikipediaSummary species,
          t_count = ts_count sp,
          t_almostCertain = get_or_zero bd ''almostCertain'',
          t_veryLikely = get_or_zero bd ''veryLikely'',
          t_uncertain = get_or_zero bd ''uncertain'',
          t_unlikely = get_or_zero bd ''unlikely'',
          t_averageProbability = ts_averageProbability sp\<rparr>)"

definition top_species_inferred :: "top_species_row list \<Rightarrow> (string \<times> dtype) list" where
  "top_species_inferred rs =
     [(''speciesId'', Utf8), (''commonName'', Utf8), (''scientificName'', Utf8),
      (''imageUrl'', nullable_dtype Utf8 (map t_imageUrl rs)),
      (''thumbnailUrl'', nullable_dtype Utf8 (map t_thumbnailUrl rs)),
      (''color'', nullable_dtype Utf8 (map t_color rs)),
      (''ebirdUrl'', nullable_dtype Utf8 (map t_ebirdUrl rs)),
      (''wikipediaSummary'', nullable_dtype Utf8 (map t_wikipediaSummary rs)),
      (''count'', Int64),
      (''almostCertain'', nullable_dtype Int64 (map t_almostCertain rs)),
      (''veryLikely'', nullable_dtype Int64 (map t_veryLikely rs)),
      (''uncertain'', nullable_dtype Int64 (map t_uncertain rs)),
      (''unlikely'', nullable_dtype Int64 (map t_unlikely rs)),
      (''averageProbability'', nullable_dtype Float64 (map t_averageProbability rs))]"

text \<open>The function ends with \<^verbatim>\<open>return pl.DataFrame(rows)\<close>, with no test for an empty list.\<close>

definition get_top_species ::
  "(top_species_vars \<Rightarrow> exn + top_species_entry list) \<Rightarrow> string \<Rightarrow> period option \<Rightarrow> int
     \<Rightarrow> exn + top_species_row DataFrame"
where
  "get_top_species q station_id period limit =
     (case q \<lparr>tv_id = station_id, tv_limit = limit, tv_period = period_var period\<rparr> of
        Inl err \<Rightarrow> Inl err
      | Inr topSpecies \<Rightarrow> Inr (frame_of_dicts top_species_inferred (map top_species_row_of topSpecies)))"

subsection \<open>\<^verbatim>\<open>get_daily_detection_counts\<close>\<close>

record species_count =
  sc_speciesId :: string
  sc_count :: int
  sc_species :: species

record day_counts =
  day_date :: int
  day_dayOfYear :: int
  day_total :: int
  day_counts :: "species_count list"

record daily_row =
  dc_date :: int
  dc_dayOfYear :: int
  dc_dailyTotal :: "int option"
  dc_speciesId :: string
  dc_commonName :: string
  dc_count :: int

definition daily_rows_of :: "day_counts list \<Rightarrow> daily_row list" where
  "daily_rows_of days =
     concat (map (\<lambda>day. map (\<lambda>sp.
        \<lparr>dc_date = day_date day,
         dc_dayOfYear = day_dayOfYear day,
         dc_dailyTotal = Some (day_total day),
         dc_speciesId = sc_speciesId sp,
         dc_commonName = sp_commonName (sc_species sp),
         dc_count = sc_count sp\<rparr>) (day_counts day)) days)"

definition daily_empty_schema :: "(string \<times> dtype) list" where
  "daily_empty_schema =
     [(''date'', Utf8), (''dayOfYear'', Int64), (''dailyTotal'', Int64),
      (''speciesId'', Utf8), (''commonName'', Utf8), (''count'', Int64)]"

definition daily_inferred :: "daily_row list \<Rightarrow> (string \<times> dtype) list" where
  "daily_inferred rs =
     [(''date'', Date), (''dayOfYear'', Int64), (''dailyTotal'', Int64),
      (''speciesId'', Utf8), (''commonName'', Utf8), (''count'', Int64)]"

definition get_daily_detection_counts ::
  "(string list \<times> period option \<Rightarrow> exn + day_counts list) \<Rightarrow> string \<Rightarrow> period option
     \<Rightarrow> exn + daily_row DataFrame"
where
  "get_daily_detection_counts q station_id period =
     (case q ([station_id], period_var period) of
        Inl err \<Rightarrow> Inl err
      | Inr days \<Rightarrow>
          (let rs = daily_rows_of days
           in if rs = [] then Inr \<lparr>schema = daily_empty_schema, rows = []\<rparr>
              else Inr (frame_of_dicts daily_inferred rs)))"

subsection \<open>\<^verbatim>\<open>get_time_of_day_counts\<close>\<close>

record hour_bin =
  bin_count :: int
  bin_key :: float64

record time_of_day_entry =
  tod_speciesId :: string
  tod_count :: int
  tod_species :: species
  tod_bins :: "hour_bin list"

record hourly_row =
  h_speciesId :: string
  h_commonName :: string
  h_totalCount :: int
  h_hour :: float64
  h_count :: int

definition hourly_rows_of :: "time_of_day_entry list \<Rightarrow> hourly_row list" where
  "hourly_rows_of entries =
     concat (map (\<lambda>sp. map (\<lambda>b.
        \<lparr>h_speciesId = tod_speciesId sp,
         h_commonName = sp_commonName (tod_species sp),
         h_totalCount = tod_count sp,
         h_hour = bin_key b,
         h_count = bin_count b\<rparr>) (tod_bins sp)) entries)"

definition hourly_schema :: "(string \<times> dtype) list" where
  "hourly_schema =
     [(''speciesId'', Utf8), (''commonName'', Utf8), (''totalCount'', Int64),
      (''hour'', Float64), (''count'', Int64)]"

definition get_time_of_day_counts ::
  "(string \<times> period option \<Rightarrow> exn + time_of_day_entry list) \<Rightarrow> string \<Rightarrow> period option
     \<Rightarrow> exn + hourly_row DataFrame"
where
  "get_time_of_day_counts q station_id period =
     (case q (station_id, period_var period) of
        Inl err \<Rightarrow> Inl err
      | Inr entries \<Rightarrow>
          (let rs = hourly_rows_of entries
           in if rs = [] then Inr \<lparr>schema = hourly_schema, rows = []\<rparr>
              else Inr (frame_of_dicts (\<lambda>_. hourly_schema) rs)))"

subsection \<open>\<^verbatim>\<open>get_environment_history\<close>\<close>

record env_node =
  env_timestamp :: instant
  env_temperature :: "float64 option"
  env_humidity :: "float64 option"
  env_barometricPressure :: "float64 option"
  env_soundPressureLevel :: "float64 option"
  env_aqi :: "float64 option"
  env_eco2 :: "float64 option"
  env_voc :: "float64 option"

record env_vars =
  ev_id :: string
  ev_first :: int
  ev_after :: "string option"
  ev_period :: "period option"

text \<open>\<^verbatim>\<open>for _ in range(max_pages)\<close>, with the number of iterations left.\<close>

fun fetch_env_pages ::
  "(env_vars \<Rightarrow> exn + env_node page) \<Rightarrow> string \<Rightarrow> period option \<Rightarrow> int
     \<Rightarrow> nat \<Rightarrow> string option \<Rightarrow> env_node list \<Rightarrow> exn + env_node list"
where
  "fetch_env_pages q station_id period page_size 0 cursor all_nodes = Inr all_nodes"
| "fetch_env_pages q station_id period page_size (Suc n) cursor all_nodes =
     (case q \<lparr>ev_id = station_id, ev_first = page_size,
               ev_after = (if truthy cursor then cursor else None),
               ev_period = period_var period\<rparr> of
        Inl err \<Rightarrow> Inl err
      | Inr hist \<Rightarrow>
          if \<not> hasNextPage hist then Inr (all_nodes @ nodes hist)
          else fetch_env_pages q station_id period page_size n (endCursor hist)
                 (all_nodes @ nodes hist))"

definition env_empty_schema :: "(string \<times> dtype) list" where
  "env_empty_schema =
     [(''timestamp'', Utf8), (''temperature'', Float64), (''humidity'', Float64),
      (''barometricPressure'', Float64), (''soundPressureLevel'', Float64),
      (''aqi'', Float64), (''eco2'', Float64), (''voc'', Float64)]"

definition env_inferred :: "env_node list \<Rightarrow> (string \<times> dtype) list" where
  "env_inferred rs =
     [(''timestamp'', Datetime),
      (''temperature'', nullable_dtype Float64 (map env_temperature rs)),
      (''humidity'', nullable_dtype Float64 (map env_humidity rs)),
      (''barometricPressure'', nullable_dtype Float64 (map env_barometricPressure rs)),
      (''soundPressureLevel'', nullable_dtype Float64 (map env_soundPressureLevel rs)),
      (''aqi'', nullable_dtype Float64 (map env_aqi rs)),
      (''eco2'', nullable_dtype Float64 (map env_eco2 rs)),
      (''voc'', nullable_dtype Float64 (map env_voc rs))]"

definition get_environment_history ::
  "(env_vars \<Rightarrow> exn + env_node page) \<Rightarrow> string \<Rightarrow> period option \<Rightarrow> int \<Rightarrow> int
     \<Rightarrow> exn + env_node DataFrame"
where
  "get_environment_history q station_id period page_size max_pages =
     (case fetch_env_pages q station_id period page_size (nat max_pages) None [] of
        Inl err \<Rightarrow> Inl err
      | Inr all_nodes \<Rightarrow>
          if all_nodes = [] then Inr \<lparr>schema = env_empty_schema, rows = []\<rparr>
          else Inr (frame_of_dicts env_inferred all_nodes))"

subsection \<open>\<^verbatim>\<open>get_species_probabilities\<close>\<close>

record probability_entry =
  pe_speciesId :: string
  pe_species :: species
  pe_weeks :: "float64 list"

record probability_row =
  p_speciesId :: string
  p_commonName :: string
  p_week :: int
  p_probability :: float64

definition probability_rows_of :: "probability_entry list \<Rightarrow> probability_row list" where
  "probability_rows_of probabilities =
     concat (map (\<lambda>sp. map (\<lambda>(week_idx, prob).
        \<lparr>p_speciesId = pe_speciesId sp,
         p_commonName = sp_commonName (pe_species sp),
         p_week = int week_idx,
         p_probability = prob\<rparr>) (enumerate 0 (pe_weeks sp))) probabilities)"

definition probability_schema :: "(string \<times> dtype) list" where
  "probability_schema =
     [(''speciesId'', Utf8), (''commonName'', Utf8), (''week'', Int64), (''probability'', Float64)]"

definition get_species_probabilities ::
  "(string \<Rightarrow> exn + probability_entry list) \<Rightarrow> string \<Rightarrow> exn + probability_row DataFrame"
where
  "get_species_probabilities q station_id =
     (case q station_id of
        Inl err \<Rightarrow> Inl err
      | Inr probabilities \<Rightarrow>
          (let rs = probability_rows_of probabilities
           in if rs = [] then Inr \<lparr>schema = probability_schema, rows = []\<rparr>
              else Inr (frame_of_dicts (\<lambda>_. probability_schema) rs)))"

section \<open>\<^verbatim>\<open>sync_detections\<close>: incremental merge into the cache\<close>

text \<open>
  A cache file is absent (\<open>None\<close>) or holds a table and a modification time.
  \<^verbatim>\<open>write_parquet\<close> replaces the file; \<open>now\<close> is the clock at that moment.
  Creating the data directory is not modelled.
\<close>

record 'r parquet_file =
  contents :: "'r DataFrame"
  mtime :: instant

definition write_parquet :: "'r DataFrame \<Rightarrow> instant \<Rightarrow> 'r parquet_file option" where
  "write_parquet df now = Some \<lparr>contents = df, mtime = now\<rparr>"

text \<open>
  \<^verbatim>\<open>df.with_columns(pl.lit(None).cast(t).alias(col))\<close> for a column the table does
  not have: the schema grows by one column; the typed rows hold no value for it.
\<close>

definition with_null_column :: "string \<Rightarrow> dtype \<Rightarrow> 'r DataFrame \<Rightarrow> 'r DataFrame" where
  "with_null_column col t df = df\<lparr>schema := schema df @ [(col, t)]\<rparr>"

text \<open>
  \<^verbatim>\<open>for col in other.columns: if col not in df.columns: df = df.with_columns(...)\<close>,
  the null column taking the dtype it has in \<open>other\<close>.
\<close>

definition add_missing_columns :: "(string \<times> dtype) list \<Rightarrow> 'r DataFrame \<Rightarrow> 'r DataFrame" where
  "add_missing_columns other df =
     foldl (\<lambda>d (col, t). if col \<in> set (columns d) then d else with_null_column col t d) df other"

text \<open>\<^verbatim>\<open>df.select(cols)\<close>: the named columns in the given order; a missing one raises.\<close>

definition select :: "string list \<Rightarrow> 'r DataFrame \<Rightarrow> exn + 'r DataFrame" where
  "select cols df =
     (case filter (\<lambda>c. c \<notin> set (columns df)) cols of
        c # _ \<Rightarrow> Inl (ColumnNotFoundError c)
      | [] \<Rightarrow> Inr (df\<lparr>schema := map (\<lambda>c. (c, the (map_of (schema df) c))) cols\<rparr>))"

text \<open>
  \<^verbatim>\<open>pl.concat([a, b])\<close>, vertical: the column names must agree, in order. The dtypes
  of the two tables are not compared here: where polars cannot reconcile them the
  source raises and returns nothing.
\<close>

definition concat_frames :: "'r DataFrame \<Rightarrow> 'r DataFrame \<Rightarrow> exn + 'r DataFrame" where
  "concat_frames a b =
     (if columns a = columns b then Inr \<lparr>schema = schema a, rows = rows a @ rows b\<rparr>
      else Inl SchemaError)"

text \<open>
  \<^verbatim>\<open>unique(subset=[col], keep="last")\<close>: of the rows with one key, the last stays.
  polars leaves the order of the result open; here the rows keep their order.
\<close>

fun unique_last :: "('r \<Rightarrow> 'k) \<Rightarrow> 'r list \<Rightarrow> 'r list" where
  "unique_last key [] = []"
| "unique_last key (r # rs) =
     (if key r \<in> key ` set rs then unique_last key rs else r # unique_last key rs)"

text \<open>
  \<^verbatim>\<open>sort(col)\<close>, ascending. polars leaves the order of rows with equal keys open;
  here the sort is stable.
\<close>

definition sort_frame :: "('r \<Rightarrow> 'k::linorder) \<Rightarrow> 'r DataFrame \<Rightarrow> 'r DataFrame" where
  "sort_frame key df = df\<lparr>rows := sort_key key (rows df)\<rparr>"

text \<open>
  \<^verbatim>\<open>stop_before\<close>: the largest cached timestamp, when the file exists and has rows.
\<close>

definition cached_stop_before :: "detection parquet_file option \<Rightarrow> instant option" where
  "cached_stop_before file =
     (case file of
        None \<Rightarrow> None
      | Some f \<Rightarrow>
          if height (contents f) > 0
          then Some (Max (set (map d_timestamp (rows (contents f)))))
          else None)"

text \<open>
  The \<^verbatim>\<open>if existing is not None and existing.height > 0\<close> block that builds
  \<^verbatim>\<open>combined\<close>. The rows of a detections table are typed, so the columns
  \<^verbatim>\<open>id\<close> and \<^verbatim>\<open>timestamp\<close> that \<^verbatim>\<open>unique\<close> and \<^verbatim>\<open>sort\<close> name are always there.
\<close>

definition sort_new :: "detection DataFrame \<Rightarrow> detection DataFrame" where
  "sort_new new_data = (if height new_data > 0 then sort_frame d_timestamp new_data else new_data)"

definition combine_detections ::
  "detection DataFrame option \<Rightarrow> detection DataFrame \<Rightarrow> exn + detection DataFrame" where
  "combine_detections existing new_data =
     (case existing of
        None \<Rightarrow> Inr (sort_new new_data)
      | Some ex \<Rightarrow>
          if height ex > 0 then
            (if height new_data > 0 then
               (let ex' = add_missing_columns (schema new_data) ex;
                    nd' = add_missing_columns (schema ex') new_data
                in case select (columns ex') nd' of
                     Inl err \<Rightarrow> Inl err
                   | Inr nd'' \<Rightarrow>
                       (case concat_frames ex' nd'' of
                          Inl err \<Rightarrow> Inl err
                        | Inr combined \<Rightarrow>
                            Inr (sort_frame d_timestamp
                                   (combined\<lparr>rows := unique_last d_id (rows combined)\<rparr>))))
             else Inr ex)
          else Inr (sort_new new_data))"

text \<open>
  \<^verbatim>\<open>sync_detections\<close>: returns \<^verbatim>\<open>combined\<close> and the cache file as it is left.
\<close>

definition sync_detections ::
  "(variables \<Rightarrow> exn + detection_node page) \<Rightarrow> string \<Rightarrow> instant option \<Rightarrow> instant
     \<Rightarrow> detection parquet_file option
     \<Rightarrow> exn + detection DataFrame \<times> detection parquet_file option"
where
  "sync_detections q station_id earliest_dt now file =
     (case get_detections q station_id 100 1000 (cached_stop_before file) earliest_dt of
        Inl err \<Rightarrow> Inl err
      | Inr new_data \<Rightarrow>
          (case combine_detections (map_option contents file) new_data of
             Inl err \<Rightarrow> Inl err
           | Inr combined \<Rightarrow>
               Inr (combined,
                    if height combined > 0 then write_parquet combined now else file)))"

text \<open>The property of a detections table that the merge is meant to keep.\<close>

definition cache_ok :: "detection DataFrame \<Rightarrow> bool" where
  "cache_ok df \<longleftrightarrow> distinct (map d_id (rows df)) \<and> sorted (map d_timestamp (rows df))"

text \<open>
  Stations for the concrete runs. The first lists a detection twice: the last node of
  its first page comes again as the first node of the second page, as happens when a
  newest-first listing grows between two requests. The second has nothing to list.
\<close>

definition repeating_station :: "variables \<Rightarrow> exn + detection_node page" where
  "repeating_station vars =
     (case var_after vars of
        None \<Rightarrow> Inr \<lparr>nodes = [example_node ''9'' 50 ''a'', example_node ''8'' 40 ''a''],
                      hasNextPage = True, endCursor = Some ''c1''\<rparr>
      | Some c \<Rightarrow> Inr \<lparr>nodes = [example_node ''8'' 40 ''a'', example_node ''7'' 30 ''a''],
                        hasNextPage = False, endCursor = None\<rparr>)"

definition silent_station :: "variables \<Rightarrow> exn + detection_node page" where
  "silent_station vars = Inr \<lparr>nodes = [], hasNextPage = False, endCursor = None\<rparr>"

definition example_cache :: "detection list \<Rightarrow> detection DataFrame" where
  "example_cache rs = \<lparr>schema = detections_schema rs, rows = rs\<rparr>"

section \<open>\<^verbatim>\<open>sync_species_probabilities\<close>: a cache with a seven-day lifetime\<close>

text \<open>\<^verbatim>\<open>timedelta(days=7)\<close> in microseconds.\<close>

definition seven_days :: int where
  "seven_days = 7 * 24 * 3600 * 1000000"

text \<open>
  \<open>now\<close> is the clock, read for the age of the file and again when the file is
  written. The cached table is returned before \<open>q\<close>, the network, is consulted.
\<close>

definition sync_species_probabilities ::
  "(string \<Rightarrow> exn + probability_entry list) \<Rightarrow> string \<Rightarrow> instant
     \<Rightarrow> probability_row parquet_file option
     \<Rightarrow> exn + probability_row DataFrame \<times> probability_row parquet_file option"
where
  "sync_species_probabilities q station_id now file =
     (case (case file of
              Some f \<Rightarrow> if now - mtime f < seven_days then Some (contents f) else None
            | None \<Rightarrow> None) of
        Some cached \<Rightarrow> Inr (cached, file)
      | None \<Rightarrow>
          (case get_species_probabilities q station_id of
             Inl err \<Rightarrow> Inl err
           | Inr probs \<Rightarrow>
               Inr (probs, if height probs > 0 then write_parquet probs now else file)))"

text \<open>Stations and a cache for the concrete runs.\<close>

definition example_species :: species where
  "example_species =
     \<lparr>sp_commonName = ''Robin'', sp_scientificName = ''Turdus'',
      sp_imageUrl = None, sp_thumbnailUrl = None, sp_color = None, sp_ebirdUrl = None,
      sp_wikipediaSummary = None\<rparr>"

definition example_probabilities :: "string \<Rightarrow> exn + probability_entry list" where
  "example_probabilities station_id =
     Inr [\<lparr>pe_speciesId = ''a'', pe_species = example_species, pe_weeks = [1 / 2, 1 / 4]\<rparr>]"

definition no_probabilities :: "string \<Rightarrow> exn + probability_entry list" where
  "no_probabilities station_id = Inr []"

definition unreachable :: "string \<Rightarrow> exn + probability_entry list" where
  "unreachable station_id = Inl ConnectionError"

definition example_probs_cache :: "probability_row DataFrame" where
  "example_probs_cache =
     \<lparr>schema = probability_schema,
      rows = [\<lparr>p_speciesId = ''b'', p_commonName = ''Wren'', p_week = 0, p_probability = 1 / 3\<rparr>]\<rparr>"

section \<open>Local aggregation\<close>

text \<open>
  \<^verbatim>\<open>group_by\<close> leaves the order of the groups open; here they come in the order in
  which their keys first occur. \<open>group_keys\<close> lists the distinct keys in that order.
\<close>

definition group_keys :: "'k list \<Rightarrow> 'k list" where
  "group_keys ks = rev (remdups (rev ks))"

text \<open>
  \<^verbatim>\<open>left.join(right, on=key, how="left")\<close>: every left row, once per right row with
  its key, or once with nulls (\<open>None\<close>) when no right row has it.
\<close>

definition left_join :: "('a \<Rightarrow> 'k) \<Rightarrow> ('b \<Rightarrow> 'k) \<Rightarrow> 'a list \<Rightarrow> 'b list \<Rightarrow> ('a \<times> 'b option) list" where
  "left_join ka kb xs ys =
     concat (map (\<lambda>x. case filter (\<lambda>y. kb y = ka x) ys of
                          [] \<Rightarrow> [(x, None)]
                        | m # ms \<Rightarrow> map (\<lambda>y. (x, Some y)) (m # ms)) xs)"

text \<open>\<^verbatim>\<open>timedelta(days=1)\<close> in microseconds, and \<^verbatim>\<open>dt.date()\<close> of a UTC instant.\<close>

definition one_day :: int where
  "one_day = 24 * 3600 * 1000000"

definition date_of :: "instant \<Rightarrow> int" where
  "date_of t = t div one_day"

text \<open>
  The optional time filter of the aggregations:
  \<^verbatim>\<open>df.filter(pl.col("timestamp") >= now - timedelta(days=period_days))\<close>.
\<close>

definition filter_period :: "instant \<Rightarrow> int option \<Rightarrow> detection list \<Rightarrow> detection list" where
  "filter_period now period_days df =
     (case period_days of
        None \<Rightarrow> df
      | Some p \<Rightarrow> filter (\<lambda>d. now - p * one_day \<le> d_timestamp d) df)"

subsection \<open>\<^verbatim>\<open>compute_daily_detection_counts\<close>\<close>

definition daily_local_schema :: "(string \<times> dtype) list" where
  "daily_local_schema =
     [(''date'', Date), (''dayOfYear'', Int64), (''dailyTotal'', Int64),
      (''speciesId'', Utf8), (''commonName'', Utf8), (''count'', Int64)]"

text \<open>
  \<^verbatim>\<open>species_daily\<close>: one row per (date, speciesId, commonName) with the number of
  detections; \<^verbatim>\<open>daily_totals\<close>: one row per date with the sum of those numbers.
\<close>

type_synonym species_daily_row = "(int \<times> string \<times> string) \<times> int"

definition species_daily :: "detection list \<Rightarrow> species_daily_row list" where
  "species_daily df =
     (let key = (\<lambda>d. (date_of (d_timestamp d), d_speciesId d, d_commonName d))
      in map (\<lambda>k. (k, int (length (filter (\<lambda>d. key d = k) df)))) (group_keys (map key df)))"

definition daily_totals :: "species_daily_row list \<Rightarrow> (int \<times> int) list" where
  "daily_totals sd =
     map (\<lambda>date. (date, sum_list (map snd (filter (\<lambda>r. fst (fst r) = date) sd))))
       (group_keys (map (\<lambda>r. fst (fst r)) sd))"

text \<open>
  \<open>ordinal_day\<close> stands for polars' \<^verbatim>\<open>dt.ordinal_day()\<close>, the day of the year of a
  date; \<open>now\<close> for \<^verbatim>\<open>datetime.now(timezone.utc)\<close>. When the filter leaves no row the
  source calls itself on an empty table, which returns the typed empty table.
\<close>

definition compute_daily_detection_counts ::
  "(int \<Rightarrow> int) \<Rightarrow> instant \<Rightarrow> detection DataFrame \<Rightarrow> int option \<Rightarrow> daily_row DataFrame" where
  "compute_daily_detection_counts ordinal_day now detections period_days =
     (if height detections = 0 then \<lparr>schema = daily_local_schema, rows = []\<rparr>
      else
        (let df = filter_period now period_days (rows detections)
         in if length df = 0 then \<lparr>schema = daily_local_schema, rows = []\<rparr>
            else
              (let sd = species_daily df;
                   joined = left_join (\<lambda>r. fst (fst r)) fst sd (daily_totals sd);
                   result = map (\<lambda>(((date, speciesId, commonName), count), total).
                       \<lparr>dc_date = date,
                        dc_dayOfYear = ordinal_day date,
                        dc_dailyTotal = map_option snd total,
                        dc_speciesId = speciesId,
                        dc_commonName = commonName,
                        dc_count = count\<rparr>) joined
               in \<lparr>schema = daily_local_schema,
                   rows = sort_key (\<lambda>r. (dc_date r, dc_commonName r)) result\<rparr>)))"

text \<open>
  Two abbreviations for the statements about the result: the sum of the counts of one
  date in \<^verbatim>\<open>species_daily\<close>, and the result row that belongs to one of its rows.
\<close>

definition date_total :: "species_daily_row list \<Rightarrow> int \<Rightarrow> int" where
  "date_total sd date = sum_list (map snd (filter (\<lambda>r. fst (fst r) = date) sd))"

definition daily_row_of :: "(int \<Rightarrow> int) \<Rightarrow> species_daily_row list \<Rightarrow> species_daily_row \<Rightarrow> daily_row" where
  "daily_row_of ordinal_day sd x =
     \<lparr>dc_date = fst (fst x), dc_dayOfYear = ordinal_day (fst (fst x)),
      dc_dailyTotal = Some (date_total sd (fst (fst x))),
      dc_speciesId = fst (snd (fst x)), dc_commonName = snd (snd (fst x)),
      dc_count = snd x\<rparr>"

subsection \<open>\<^verbatim>\<open>compute_top_species\<close>\<close>

text \<open>A row of the species metadata table (the columns \<^verbatim>\<open>meta_cols\<close>).\<close>

record species_meta_row =
  m_speciesId :: string
  m_commonName :: string
  m_scientificName :: string
  m_imageUrl :: "string option"
  m_thumbnailUrl :: "string option"
  m_color :: "string option"
  m_ebirdUrl :: "string option"
  m_wikipediaSummary :: "string option"

definition top_species_empty_schema :: "(string \<times> dtype) list" where
  "top_species_empty_schema =
     [(''speciesId'', Utf8), (''commonName'', Utf8), (''scientificName'', Utf8),
      (''imageUrl'', Utf8), (''thumbnailUrl'', Utf8), (''color'', Utf8),
      (''ebirdUrl'', Utf8), (''wikipediaSummary'', Utf8),
      (''count'', Int64), (''almostCertain'', Int64), (''veryLikely'', Int64),
      (''uncertain'', Int64), (''unlikely'', Int64), (''averageProbability'', Float64)]"

text \<open>The aggregates of one species: the \<^verbatim>\<open>agg\<close> of the \<^verbatim>\<open>group_by("speciesId")\<close>.\<close>

record species_agg =
  a_speciesId :: string
  a_count :: int
  a_averageProbability :: "float64 option"
  a_commonName :: string
  a_scientificName :: string
  a_almostCertain :: int
  a_veryLikely :: int
  a_uncertain :: int
  a_unlikely :: int

text \<open>\<^verbatim>\<open>mean()\<close> skips nulls and is null when nothing is left.\<close>

definition mean :: "float64 option list \<Rightarrow> float64 option" where
  "mean vs =
     (let xs = concat (map (\<lambda>v. case v of None \<Rightarrow> [] | Some x \<Rightarrow> [x]) vs)
      in if xs = [] then None else Some (sum_list xs / of_nat (length xs)))"

definition count_certainty :: "string \<Rightarrow> detection list \<Rightarrow> int" where
  "count_certainty c g = int (length (filter (\<lambda>d. d_certainty d = c) g))"

text \<open>The aggregates of one group; a group has a first row.\<close>

fun agg_of_group :: "detection list \<Rightarrow> species_agg list" where
  "agg_of_group [] = []"
| "agg_of_group (first # rest) =
     [\<lparr>a_speciesId = d_speciesId first,
       a_count = int (length (first # rest)),
       a_averageProbability = mean (map d_probability (first # rest)),
       a_commonName = d_commonName first,
       a_scientificName = d_scientificName first,
       a_almostCertain = count_certainty ''almost_certain'' (first # rest),
       a_veryLikely = count_certainty ''very_likely'' (first # rest),
       a_uncertain = count_certainty ''uncertain'' (first # rest),
       a_unlikely = count_certainty ''unlikely'' (first # rest)\<rparr>]"

definition species_aggregates :: "detection list \<Rightarrow> species_agg list" where
  "species_aggregates df =
     concat (map (\<lambda>k. agg_of_group (filter (\<lambda>d. d_speciesId d = k) df))
               (group_keys (map d_speciesId df)))"

text \<open>\<^verbatim>\<open>head(n)\<close>: the first \<open>n\<close> rows; for a negative \<open>n\<close> all rows but the last \<open>- n\<close>.\<close>

definition head :: "int \<Rightarrow> 'a list \<Rightarrow> 'a list" where
  "head n xs = (if 0 \<le> n then take (nat n) xs else take (length xs - nat (- n)) xs)"

text \<open>
  A value of the joined metadata: null when no metadata row matched or the metadata
  table has no such column (the column is then added with nulls).
\<close>

definition meta_value ::
  "string list \<Rightarrow> string \<Rightarrow> (species_meta_row \<Rightarrow> string option) \<Rightarrow> species_meta_row option
     \<Rightarrow> string option" where
  "meta_value cols c field m =
     (case m of None \<Rightarrow> None | Some r \<Rightarrow> if c \<in> set cols then field r else None)"

definition top_row_of :: "string list \<Rightarrow> species_agg \<times> species_meta_row option \<Rightarrow> top_species_row" where
  "top_row_of cols am =
     (case am of (a, m) \<Rightarrow>
        \<lparr>t_speciesId = a_speciesId a,
         t_commonName = a_commonName a,
         t_scientificName = a_scientificName a,
         t_imageUrl = meta_value cols ''imageUrl'' m_imageUrl m,
         t_thumbnailUrl = meta_value cols ''thumbnailUrl'' m_thumbnailUrl m,
         t_color = meta_value cols ''color'' m_color m,
         t_ebirdUrl = meta_value cols ''ebirdUrl'' m_ebirdUrl m,
         t_wikipediaSummary = meta_value cols ''wikipediaSummary'' m_wikipediaSummary m,
         t_count = a_count a,
         t_almostCertain = Some (a_almostCertain a),
         t_veryLikely = Some (a_veryLikely a),
         t_uncertain = Some (a_uncertain a),
         t_unlikely = Some (a_unlikely a),
         t_averageProbability = a_averageProbability a\<rparr>)"

text \<open>
  The schema after the join, the loop that adds absent metadata columns as
  \<^verbatim>\<open>Utf8\<close> nulls, and the final \<^verbatim>\<open>select\<close> in \<^verbatim>\<open>col_order\<close>.
\<close>

definition top_species_local_schema :: "species_meta_row DataFrame \<Rightarrow> (string \<times> dtype) list" where
  "top_species_local_schema species_meta =
     [(''speciesId'', Utf8), (''commonName'', Utf8), (''scientificName'', Utf8)] @
     map (\<lambda>c. (c, case map_of (schema species_meta) c of Some t \<Rightarrow> t | None \<Rightarrow> Utf8))
       [''imageUrl'', ''thumbnailUrl'', ''color'', ''ebirdUrl'', ''wikipediaSummary''] @
     [(''count'', Int64), (''almostCertain'', Int64), (''veryLikely'', Int64),
      (''uncertain'', Int64), (''unlikely'', Int64), (''averageProbability'', Float64)]"

text \<open>
  \<^verbatim>\<open>compute_top_species\<close>. The sort by \<^verbatim>\<open>count\<close>, descending, is taken stable. When
  the filter leaves no row the source calls itself on an empty table, which returns
  the typed empty table. The join raises when the metadata has no \<^verbatim>\<open>speciesId\<close>.
\<close>

definition compute_top_species ::
  "instant \<Rightarrow> detection DataFrame \<Rightarrow> species_meta_row DataFrame \<Rightarrow> int option \<Rightarrow> int
     \<Rightarrow> exn + top_species_row DataFrame" where
  "compute_top_species now detections species_meta period_days limit =
     (if height detections = 0 then Inr \<lparr>schema = top_species_empty_schema, rows = []\<rparr>
      else
        (let df = filter_period now period_days (rows detections)
         in if length df = 0 then Inr \<lparr>schema = top_species_empty_schema, rows = []\<rparr>
            else
              (let agg = head limit (sort_key (\<lambda>a. - a_count a) (species_aggregates df));
                   meta_cols = filter (\<lambda>c. c \<noteq> ''commonName'' \<and> c \<noteq> ''scientificName'')
                                 (columns species_meta)
               in if ''speciesId'' \<notin> set meta_cols then Inl (ColumnNotFoundError ''speciesId'')
                  else Inr \<lparr>schema = top_species_local_schema species_meta,
                            rows = map (top_row_of meta_cols)
                                     (left_join a_speciesId m_speciesId agg (rows species_meta))\<rparr>)))"

section \<open>\<^verbatim>\<open>sync_species_meta\<close>: bulk metadata and the residual lookup\<close>

definition meta_cols :: "string list" where
  "meta_cols =
     [''speciesId'', ''commonName'', ''scientificName'', ''imageUrl'', ''thumbnailUrl'',
      ''color'', ''ebirdUrl'', ''wikipediaSummary'']"















section \<open>Verification\<close>

subsection \<open>Retry policy of \<^verbatim>\<open>query_graphql\<close>\<close>

lemma backoff_trace_0: "backoff_trace a 0 = []"
  by (simp add: backoff_trace_def)

lemma backoff_trace_Suc: "backoff_trace a (Suc k) = [Post, Sleep (2 ^ a)] @ backoff_trace (Suc a) k"
  by (simp add: backoff_trace_def upt_rec)

lemma query_attempts_stop:
  assumes "int a < retries" and "\<not> is_transient_failure (post a) \<or> int a = retries - 1"
  shows "query_attempts post retries a tr = (final_outcome (post a), tr @ [Post])"
  using assms
  by (subst query_attempts.simps)
     (auto simp: is_transient_failure_def split: post_outcome.splits option.splits)

lemma query_attempts_retry:
  assumes "int a < retries - 1" and "is_transient_failure (post a)"
  shows "query_attempts post retries a tr =
         query_attempts post retries (Suc a) (tr @ [Post, Sleep (2 ^ a)])"
  using assms
  by (subst query_attempts.simps)
     (auto simp: is_transient_failure_def split: post_outcome.splits option.splits)

lemma query_attempts_run:
  assumes "\<forall>i. a \<le> i \<and> i < a + k \<longrightarrow> is_transient_failure (post i)"
      and "int (a + k) < retries"
      and "\<not> is_transient_failure (post (a + k)) \<or> int (a + k) = retries - 1"
  shows "query_attempts post retries a tr =
         (final_outcome (post (a + k)), tr @ backoff_trace a k @ [Post])"
  using assms
proof (induction k arbitrary: a tr)
  case 0
  then show ?case by (simp add: query_attempts_stop backoff_trace_0)
next
  case (Suc k)
  have t: "is_transient_failure (post a)" using Suc.prems(1) by simp
  have b: "int a < retries - 1" using Suc.prems(2) by simp
  have "query_attempts post retries (Suc a) (tr @ [Post, Sleep (2 ^ a)]) =
        (final_outcome (post (Suc a + k)), (tr @ [Post, Sleep (2 ^ a)]) @ backoff_trace (Suc a) k @ [Post])"
    using Suc.prems by (intro Suc.IH) auto
  then show ?case
    using query_attempts_retry [of a retries post tr] b t
    by (simp add: backoff_trace_Suc)
qed

text \<open>
  Claim C8. Let the attempts numbered below \<open>k\<close> all fail with a timeout or a
  connection error, with \<open>k\<close> inside the attempt budget \<open>retries\<close>. Then the
  function sends \<open>k + 1\<close> requests and sleeps \<open>2 ^ i\<close> seconds after the failed attempt
  \<open>i\<close>, and attempt \<open>k\<close> decides: a response with an \<^verbatim>\<open>errors\<close> payload is
  raised at once as a \<^verbatim>\<open>RuntimeError\<close> carrying that payload, with no further
  request or sleep; a response with data is returned; an exception that is neither a
  timeout nor a connection error is raised at once; and a timeout or connection error on
  the last attempt of the budget is raised again.
\<close>

theorem query_graphql_retry:
  assumes "\<forall>i<k. is_transient_failure (post i)" and "int k < retries"
  shows "(\<forall>r payload. post k = Responds r \<and> errors r = Some payload \<longrightarrow>
            query_graphql post retries = (Inl (RuntimeError payload), backoff_trace 0 k @ [Post]))
       \<and> (\<forall>r d. post k = Responds r \<and> errors r = None \<and> data r = Some d \<longrightarrow>
            query_graphql post retries = (Inr (Some d), backoff_trace 0 k @ [Post]))
       \<and> (\<forall>e. post k = Raises e \<and> \<not> transient e \<longrightarrow>
            query_graphql post retries = (Inl e, backoff_trace 0 k @ [Post]))
       \<and> (\<forall>e. post k = Raises e \<and> transient e \<and> int k = retries - 1 \<longrightarrow>
            query_graphql post retries = (Inl e, backoff_trace 0 k @ [Post]))"
proof -
  have run: "query_graphql post retries = (final_outcome (post k), backoff_trace 0 k @ [Post])"
    if "\<not> is_transient_failure (post k) \<or> int k = retries - 1"
    using query_attempts_run [of 0 k post retries "[]"] assms that
    by (simp add: query_graphql_def)
  show ?thesis
    by (auto simp: run is_transient_failure_def)
qed

theorem query_graphql_retry_witness:
  "query_graphql (\<lambda>i. if i < 2 then Raises Timeout
                       else Responds \<lparr>errors = Some ''bad query'', data = (None :: nat option)\<rparr>) 3
     = (Inl (RuntimeError ''bad query''), [Post, Sleep 1, Post, Sleep 2, Post])
   \<and> query_graphql (\<lambda>i. (Raises ConnectionError :: nat post_outcome)) 3
     = (Inl ConnectionError, [Post, Sleep 1, Post, Sleep 2, Post])"
proof -
  let ?p = "\<lambda>i::nat. if i < 2 then Raises Timeout
                       else Responds \<lparr>errors = Some ''bad query'', data = (None :: nat option)\<rparr>"
  let ?q = "\<lambda>i::nat. (Raises ConnectionError :: nat post_outcome)"
  have bt: "backoff_trace 0 2 = [Post, Sleep 1, Post, Sleep 2]"
    by (simp add: backoff_trace_def upt_rec)
  have "\<forall>i<2. is_transient_failure (?p i)" by (simp add: is_transient_failure_def)
  moreover have "\<forall>i<2. is_transient_failure (?q i)" by (simp add: is_transient_failure_def)
  ultimately show ?thesis
    using query_graphql_retry [of 2 ?p 3] query_graphql_retry [of 2 ?q 3] bt
    by simp
qed

subsection \<open>Stop boundary of \<^verbatim>\<open>get_detections\<close>\<close>

lemma scan_nodes_eq:
  "scan_nodes sb e ns acc =
     (acc @ map detection_of_node (takeWhile (\<lambda>n. \<not> bnd sb e n) ns),
      \<exists>n\<in>set ns. bnd sb e n)"
  by (induction ns arbitrary: acc) auto

lemma fetch_detection_pages_inv:
  assumes "fetch_detection_pages q sid ps sb e n cursor acc sent = Inr (res, sent')"
      and "acc = map detection_of_node (received q sent)"
      and "\<forall>x\<in>set (received q sent). \<not> bnd sb e x"
  shows "res = map detection_of_node (takeWhile (\<lambda>x. \<not> bnd sb e x) (received q sent'))
       \<and> (\<forall>x\<in>set (received q (butlast sent')). \<not> bnd sb e x)"
  using assms
proof (induction n arbitrary: cursor acc sent)
  case 0
  then show ?case
    by (auto simp: received_def takeWhile_eq_all_conv[THEN iffD2] dest: in_set_butlastD)
next
  case (Suc n)
  let ?v = "\<lparr>var_id = sid, var_first = ps, var_after = (if truthy cursor then cursor else None)\<rparr>"
  from Suc.prems(1) obtain det where det: "q ?v = Inr det"
    by (auto simp: Let_def split: sum.splits)
  have rec: "received q (sent @ [?v]) = received q sent @ nodes det"
    using det by (simp add: received_def)
  have tw: "takeWhile (\<lambda>x. \<not> bnd sb e x) (received q sent) = received q sent"
    using Suc.prems(3) by (simp add: takeWhile_eq_all_conv)
  show ?case
  proof (cases "nodes det = [] \<or> (\<exists>x\<in>set (nodes det). bnd sb e x) \<or> \<not> hasNextPage det")
    case True
    then have "res = acc @ map detection_of_node (takeWhile (\<lambda>x. \<not> bnd sb e x) (nodes det))"
          and "sent' = sent @ [?v]"
      using Suc.prems(1) det by (auto simp: Let_def scan_nodes_eq split: if_splits)
    then show ?thesis
      using Suc.prems(2,3) by (simp add: rec takeWhile_append tw del: takeWhile_eq_all_conv)
  next
    case False
    then have call: "fetch_detection_pages q sid ps sb e n (endCursor det)
                 (acc @ map detection_of_node (nodes det)) (sent @ [?v]) = Inr (res, sent')"
      using Suc.prems(1) det
      by (auto simp: Let_def scan_nodes_eq takeWhile_eq_all_conv[THEN iffD2] split: if_splits)
    show ?thesis
      using False Suc.prems(2,3)
      by (intro Suc.IH [OF call]) (auto simp: rec)
  qed
qed


text \<open>
  Claim C1. Whenever \<^verbatim>\<open>get_detections\<close> returns a table: with \<^verbatim>\<open>stop_before = t\<close>
  every returned row has a timestamp after \<open>t\<close>, and with the earliest-detection
  boundary \<open>t\<close> no returned row has a timestamp before \<open>t\<close>. The rows are exactly the
  nodes received, in order, up to the first node at a boundary, which is left out with
  everything after it; and no request is sent after the page that holds such a node
  (all nodes answered to the requests before the last one are inside the boundaries).
\<close>

theorem get_detections_stop:
  assumes "get_detections_traced q station_id page_size max_pages stop_before earliest_dt = Inr (df, sent)"
  shows "get_detections q station_id page_size max_pages stop_before earliest_dt = Inr df
       \<and> (\<forall>t. stop_before = Some t \<longrightarrow> (\<forall>r\<in>set (rows df). t < d_timestamp r))
       \<and> (\<forall>t. earliest_dt = Some t \<longrightarrow> (\<forall>r\<in>set (rows df). t \<le> d_timestamp r))
       \<and> rows df = map detection_of_node
                (takeWhile (\<lambda>n. \<not> at_boundary stop_before earliest_dt (node_timestamp n))
                   (received q sent))
       \<and> (\<forall>n\<in>set (received q (butlast sent)).
             \<not> at_boundary stop_before earliest_dt (node_timestamp n))"
proof -
  let ?b = "\<lambda>n. at_boundary stop_before earliest_dt (node_timestamp n)"
  from assms obtain all_nodes where
    loop: "fetch_detection_pages q station_id page_size stop_before earliest_dt
             (nat max_pages) None [] [] = Inr (all_nodes, sent)"
    and df: "rows df = all_nodes"
    by (auto simp: get_detections_traced_def frame_of_dicts_def split: sum.splits if_splits)
  have inv: "all_nodes = map detection_of_node (takeWhile (\<lambda>n. \<not> ?b n) (received q sent))
       \<and> (\<forall>n\<in>set (received q (butlast sent)). \<not> ?b n)"
    by (rule fetch_detection_pages_inv [OF loop]) (simp_all add: received_def)
  have nb: "\<not> at_boundary stop_before earliest_dt (d_timestamp r)" if "r \<in> set (rows df)" for r
  proof -
    from that df inv obtain n where "n \<in> set (takeWhile (\<lambda>n. \<not> ?b n) (received q sent))"
      and "r = detection_of_node n" by auto
    then show ?thesis
      by (auto simp: detection_of_node_def dest: set_takeWhileD)
  qed
  have "get_detections q station_id page_size max_pages stop_before earliest_dt = Inr df"
    using assms by (simp add: get_detections_def)
  moreover have "\<forall>t. stop_before = Some t \<longrightarrow> (\<forall>r\<in>set (rows df). t < d_timestamp r)"
    using nb by (fastforce simp: at_boundary_def)
  moreover have "\<forall>t. earliest_dt = Some t \<longrightarrow> (\<forall>r\<in>set (rows df). t \<le> d_timestamp r)"
    using nb by (fastforce simp: at_boundary_def)
  ultimately show ?thesis using inv df by simp
qed

theorem get_detections_stop_witness:
  "get_detections_traced example_station ''7'' 100 5 (Some 20) None =
     Inr (\<lparr>schema = detections_schema (map detection_of_node
               [example_node ''5'' 50 ''a'', example_node ''4'' 40 ''b'', example_node ''3'' 30 ''a'']),
           rows = map detection_of_node
               [example_node ''5'' 50 ''a'', example_node ''4'' 40 ''b'', example_node ''3'' 30 ''a'']\<rparr>,
          [\<lparr>var_id = ''7'', var_first = 100, var_after = None\<rparr>,
           \<lparr>var_id = ''7'', var_first = 100, var_after = Some ''c1''\<rparr>])
   \<and> list_all (\<lambda>r. 20 < d_timestamp r) (map detection_of_node
          [example_node ''5'' 50 ''a'', example_node ''4'' 40 ''b'', example_node ''3'' 30 ''a''])"
proof -
  let ?rows = "map detection_of_node
     [example_node ''5'' 50 ''a'', example_node ''4'' 40 ''b'', example_node ''3'' 30 ''a'']"
  have run: "get_detections_traced example_station ''7'' 100 5 (Some 20) None =
     Inr (\<lparr>schema = detections_schema ?rows, rows = ?rows\<rparr>,
          [\<lparr>var_id = ''7'', var_first = 100, var_after = None\<rparr>,
           \<lparr>var_id = ''7'', var_first = 100, var_after = Some ''c1''\<rparr>])"
    by code_simp
  have "\<forall>t. Some (20::int) = Some t \<longrightarrow>
          (\<forall>r\<in>set (rows \<lparr>schema = detections_schema ?rows, rows = ?rows\<rparr>). t < d_timestamp r)"
    using get_detections_stop [OF run] by blast
  then have "list_all (\<lambda>r. 20 < d_timestamp r) ?rows"
    by (simp add: list_all_iff del: list.map set_simps)
  with run show ?thesis by (intro conjI)
qed

subsection \<open>The merge of \<^verbatim>\<open>sync_detections\<close>\<close>

lemma keys_unique_last: "key ` set (unique_last key rs) = key ` set rs"
  by (induction rs) auto

lemma distinct_unique_last: "distinct (map key (unique_last key rs))"
  by (induction rs) (auto simp: keys_unique_last)

lemma distinct_map_iff_card: "distinct (map f ys) \<longleftrightarrow> card (f ` set ys) = length ys"
  using distinct_card [of "map f ys"] card_distinct [of "map f ys"] by auto

lemma distinct_map_sort_key: "distinct (map f (sort_key g xs)) = distinct (map f xs)"
  by (simp add: distinct_map_iff_card)

lemma cache_ok_sorted_unique:
  "cache_ok (sort_frame d_timestamp (df\<lparr>rows := unique_last d_id rs\<rparr>))"
  by (simp add: cache_ok_def sort_frame_def distinct_map_sort_key distinct_unique_last)

lemma cache_ok_sort_new:
  "distinct (map d_id (rows nd)) \<Longrightarrow> cache_ok (sort_new nd)"
  by (auto simp: cache_ok_def sort_new_def sort_frame_def distinct_map_sort_key height_def)

lemma combine_detections_ok:
  assumes "combine_detections existing nd = Inr combined"
      and "(distinct (map d_id (rows nd)) \<and> (\<forall>ex. existing = Some ex \<longrightarrow> cache_ok ex))
           \<or> (\<exists>ex. existing = Some ex \<and> rows ex \<noteq> [] \<and> rows nd \<noteq> [])"
  shows "cache_ok combined"
proof (cases existing)
  case None
  then show ?thesis using assms by (auto simp: combine_detections_def cache_ok_sort_new)
next
  case (Some ex)
  show ?thesis
  proof (cases "rows ex \<noteq> [] \<and> rows nd \<noteq> []")
    case True
    then obtain df rs where "combined = sort_frame d_timestamp (df\<lparr>rows := unique_last d_id rs\<rparr>)"
      using assms(1) Some
      by (auto simp: combine_detections_def height_def Let_def split: sum.splits)
    then show ?thesis by (simp add: cache_ok_sorted_unique)
  next
    case False
    then show ?thesis using assms Some
      by (auto simp: combine_detections_def height_def cache_ok_sort_new split: if_splits)
  qed
qed

subsection \<open>Invariant, idempotence and write condition of \<^verbatim>\<open>sync_detections\<close>\<close>

lemma rows_add_missing_columns: "rows (add_missing_columns other df) = rows df"
  unfolding add_missing_columns_def
  by (induction other arbitrary: df) (auto simp: with_null_column_def)

lemma rows_select: "select cols df = Inr d \<Longrightarrow> rows d = rows df"
  by (auto simp: select_def split: list.splits)

lemma unique_last_Nil_iff: "unique_last key rs = [] \<longleftrightarrow> rs = []"
  using keys_unique_last [of key rs] by (cases rs) auto

lemma combine_detections_merge_rows:
  assumes "combine_detections (Some ex) nd = Inr combined"
      and "rows ex \<noteq> []" and "rows nd \<noteq> []"
  shows "rows combined = sort_key d_timestamp (unique_last d_id (rows ex @ rows nd))"
  using assms
  by (auto simp: combine_detections_def height_def Let_def sort_frame_def concat_frames_def
        rows_add_missing_columns
      split: sum.splits if_splits dest!: rows_select)

lemma combine_detections_merge_nonempty:
  assumes "combine_detections (Some ex) nd = Inr combined"
      and "rows ex \<noteq> []" and "rows nd \<noteq> []"
  shows "rows combined \<noteq> []"
proof -
  have "length (rows combined) = length (unique_last d_id (rows ex @ rows nd))"
    by (simp add: combine_detections_merge_rows [OF assms])
  moreover have "unique_last d_id (rows ex @ rows nd) \<noteq> []"
    using assms(2) by (simp add: unique_last_Nil_iff)
  ultimately show ?thesis by auto
qed

text \<open>
  Claim C2, as amended. Let \<^verbatim>\<open>sync_detections\<close> return, and let \<open>new_data\<close> be the
  table it fetched. If the fetched rows have pairwise distinct ids and the cache file,
  when there is one, holds a table with pairwise distinct ids and non-decreasing
  timestamps, or if a non-empty cache is merged with a non-empty fetch (whatever
  they hold), then the returned table has pairwise distinct ids and non-decreasing
  timestamps, and so has the table in the cache file afterwards.
\<close>

theorem sync_detections_cache_ok:
  assumes "sync_detections q station_id earliest_dt now file = Inr (combined, file')"
      and "get_detections q station_id 100 1000 (cached_stop_before file) earliest_dt = Inr new_data"
      and "(distinct (map d_id (rows new_data)) \<and> (\<forall>f. file = Some f \<longrightarrow> cache_ok (contents f)))
           \<or> (\<exists>f. file = Some f \<and> rows (contents f) \<noteq> [] \<and> rows new_data \<noteq> [])"
  shows "cache_ok combined \<and> (\<forall>f'. file' = Some f' \<longrightarrow> cache_ok (contents f'))"
proof -
  from assms(1,2) have comb: "combine_detections (map_option contents file) new_data = Inr combined"
    and file': "file' = (if height combined > 0 then write_parquet combined now else file)"
    by (auto simp: sync_detections_def split: sum.splits)
  have ok: "cache_ok combined"
    using assms(3) by (intro combine_detections_ok [OF comb]) auto
  have "cache_ok (contents f')" if "file' = Some f'" for f'
  proof (cases "height combined > 0")
    case True
    then show ?thesis using that file' ok by (auto simp: write_parquet_def)
  next
    case False
    then have "file = Some f'" using that file' by simp
    moreover have "rows combined = []" using False by (simp add: height_def)
    ultimately show ?thesis
      using assms(3) combine_detections_merge_nonempty [of "contents f'" new_data combined] comb
      by auto
  qed
  with ok show ?thesis by blast
qed

theorem sync_detections_cache_ok_witness:
  "sync_detections example_station ''7'' None 1000
     (Some \<lparr>contents = example_cache (map detection_of_node
               [example_node ''1'' 10 ''b'', example_node ''4'' 20 ''a'']), mtime = 5\<rparr>)
   = Inr (example_cache (map detection_of_node
            [example_node ''1'' 10 ''b'', example_node ''3'' 30 ''a'',
             example_node ''4'' 40 ''b'', example_node ''5'' 50 ''a'']),
          write_parquet (example_cache (map detection_of_node
            [example_node ''1'' 10 ''b'', example_node ''3'' 30 ''a'',
             example_node ''4'' 40 ''b'', example_node ''5'' 50 ''a''])) 1000)
   \<and> cache_ok (example_cache (map detection_of_node
            [example_node ''1'' 10 ''b'', example_node ''3'' 30 ''a'',
             example_node ''4'' 40 ''b'', example_node ''5'' 50 ''a'']))"
proof -
  let ?file = "Some \<lparr>contents = example_cache (map detection_of_node
               [example_node ''1'' 10 ''b'', example_node ''4'' 20 ''a'']), mtime = 5\<rparr>"
  let ?new = "example_cache (map detection_of_node
            [example_node ''5'' 50 ''a'', example_node ''4'' 40 ''b'', example_node ''3'' 30 ''a''])"
  let ?D = "example_cache (map detection_of_node
            [example_node ''1'' 10 ''b'', example_node ''3'' 30 ''a'',
             example_node ''4'' 40 ''b'', example_node ''5'' 50 ''a''])"
  have run: "sync_detections example_station ''7'' None 1000 ?file = Inr (?D, write_parquet ?D 1000)"
    by code_simp
  have fetch: "get_detections example_station ''7'' 100 1000 (cached_stop_before ?file) None = Inr ?new"
    by code_simp
  have hyp: "(distinct (map d_id (rows ?new)) \<and> (\<forall>f. ?file = Some f \<longrightarrow> cache_ok (contents f)))
           \<or> (\<exists>f. ?file = Some f \<and> rows (contents f) \<noteq> [] \<and> rows ?new \<noteq> [])"
    by (simp add: example_cache_def)
  have "cache_ok ?D"
    using sync_detections_cache_ok [OF run fetch hyp] by blast
  with run show ?thesis by (intro conjI)
qed

text \<open>
  The claim as stated fails twice. On a first run the fetched rows are only sorted:
  a station that lists one detection on two pages leaves two rows with one id in the
  cache. And a cache that is not sorted is returned and written back as it is when
  the fetch brings nothing.
\<close>

theorem sync_detections_cache_ok_counterexample:
  "sync_detections repeating_station ''7'' None 1000 None
     = Inr (example_cache (map detection_of_node
              [example_node ''7'' 30 ''a'', example_node ''8'' 40 ''a'',
               example_node ''8'' 40 ''a'', example_node ''9'' 50 ''a'']),
            write_parquet (example_cache (map detection_of_node
              [example_node ''7'' 30 ''a'', example_node ''8'' 40 ''a'',
               example_node ''8'' 40 ''a'', example_node ''9'' 50 ''a''])) 1000)
   \<and> \<not> distinct (map d_id (rows (example_cache (map detection_of_node
              [example_node ''7'' 30 ''a'', example_node ''8'' 40 ''a'',
               example_node ''8'' 40 ''a'', example_node ''9'' 50 ''a'']))))
   \<and> sync_detections silent_station ''7'' None 1000
       (Some \<lparr>contents = example_cache (map detection_of_node
               [example_node ''1'' 20 ''a'', example_node ''2'' 10 ''b'']), mtime = 5\<rparr>)
     = Inr (example_cache (map detection_of_node
              [example_node ''1'' 20 ''a'', example_node ''2'' 10 ''b'']),
            write_parquet (example_cache (map detection_of_node
              [example_node ''1'' 20 ''a'', example_node ''2'' 10 ''b''])) 1000)
   \<and> \<not> sorted (map d_timestamp (rows (example_cache (map detection_of_node
              [example_node ''1'' 20 ''a'', example_node ''2'' 10 ''b'']))))"
  by code_simp

text \<open>
  Claim C3. When the cache file holds a table with at least one row and the fetch
  returns a table with no rows, \<^verbatim>\<open>sync_detections\<close> returns the cached table itself
  and writes that same table back: the same rows in the same order. Running it once
  more on the file it has left, at any later time, gives the same table again.
\<close>

theorem sync_detections_idempotent:
  assumes "file = Some f" and "rows (contents f) \<noteq> []"
      and "get_detections q station_id 100 1000 (cached_stop_before file) earliest_dt = Inr new_data"
      and "rows new_data = []"
  shows "sync_detections q station_id earliest_dt now file =
           Inr (contents f, Some \<lparr>contents = contents f, mtime = now\<rparr>)
       \<and> sync_detections q station_id earliest_dt later
             (Some \<lparr>contents = contents f, mtime = now\<rparr>) =
           Inr (contents f, Some \<lparr>contents = contents f, mtime = later\<rparr>)"
  using assms
  by (simp add: sync_detections_def combine_detections_def height_def write_parquet_def
        cached_stop_before_def)

text \<open>
  Claim C4. Whenever \<^verbatim>\<open>sync_detections\<close> returns: if the merged table has no rows
  the cache file is left as it was (absent, or with its contents and modification
  time); the file is written, with the merged table, exactly when that table has rows.
\<close>

theorem sync_detections_write:
  assumes "sync_detections q station_id earliest_dt now file = Inr (combined, file')"
  shows "(rows combined = [] \<longrightarrow> file' = file)
       \<and> (rows combined \<noteq> [] \<longrightarrow> file' = write_parquet combined now)"
  using assms
  by (auto simp: sync_detections_def height_def split: sum.splits)


theorem sync_detections_idempotent_witness:
  "sync_detections silent_station ''7'' None 1000
     (Some \<lparr>contents = example_cache (map detection_of_node
               [example_node ''1'' 10 ''b'', example_node ''4'' 20 ''a'']), mtime = 5\<rparr>)
   = Inr (example_cache (map detection_of_node
               [example_node ''1'' 10 ''b'', example_node ''4'' 20 ''a'']),
          Some \<lparr>contents = example_cache (map detection_of_node
               [example_node ''1'' 10 ''b'', example_node ''4'' 20 ''a'']), mtime = 1000\<rparr>)"
proof -
  let ?f = "\<lparr>contents = example_cache (map detection_of_node
               [example_node ''1'' 10 ''b'', example_node ''4'' 20 ''a'']), mtime = 5\<rparr>"
  have fetch: "get_detections silent_station ''7'' 100 1000 (cached_stop_before (Some ?f)) None
                = Inr \<lparr>schema = detections_empty_schema, rows = []\<rparr>"
    by code_simp
  have ne: "rows (contents ?f) \<noteq> []" by (simp add: example_cache_def)
  show ?thesis
    using sync_detections_idempotent [OF refl ne fetch, of 1000 2000] by simp
qed

theorem sync_detections_write_witness:
  "sync_detections silent_station ''7'' None 1000 None
     = Inr (\<lparr>schema = detections_empty_schema, rows = []\<rparr>, None)
   \<and> sync_detections example_station ''7'' (Some 35) 1000 None
     = Inr (example_cache (map detection_of_node
              [example_node ''4'' 40 ''b'', example_node ''5'' 50 ''a'']),
            write_parquet (example_cache (map detection_of_node
              [example_node ''4'' 40 ''b'', example_node ''5'' 50 ''a''])) 1000)
   \<and> rows (example_cache (map detection_of_node
              [example_node ''4'' 40 ''b'', example_node ''5'' 50 ''a''])) \<noteq> []"
proof -
  let ?D = "example_cache (map detection_of_node
              [example_node ''4'' 40 ''b'', example_node ''5'' 50 ''a''])"
  have r1: "sync_detections silent_station ''7'' None 1000 None
     = Inr (\<lparr>schema = detections_empty_schema, rows = []\<rparr>, None)"
    by code_simp
  have r2: "sync_detections example_station ''7'' (Some 35) 1000 None
     = Inr (?D, write_parquet ?D 1000)"
    by code_simp
  have ne: "rows ?D \<noteq> []" by (simp add: example_cache_def)
  show ?thesis
    using sync_detections_write [OF r1] sync_detections_write [OF r2] r1 r2 ne
    by (intro conjI)
qed

subsection \<open>Lifetime of the species-probability cache\<close>

text \<open>
  Claim C5. While the cache file exists and is less than seven days old,
  \<^verbatim>\<open>sync_species_probabilities\<close> returns the cached table and leaves the file alone,
  whatever the network would answer (it is not asked, so even an unreachable one
  changes nothing). When the file is absent or at least seven days old the function
  fetches: a failure of the fetch is raised; otherwise the fetched table is returned,
  and it replaces the file when it has rows, while a fetch with no rows leaves the
  file (absent or stale) as it was.
\<close>

theorem sync_species_probabilities_policy:
  "(\<forall>f. file = Some f \<and> now - mtime f < seven_days \<longrightarrow>
       (\<forall>q. sync_species_probabilities q station_id now file = Inr (contents f, file)))
   \<and> ((file = None \<or> (\<exists>f. file = Some f \<and> seven_days \<le> now - mtime f)) \<longrightarrow>
       sync_species_probabilities q station_id now file =
         (case get_species_probabilities q station_id of
            Inl err \<Rightarrow> Inl err
          | Inr probs \<Rightarrow>
              Inr (probs, if rows probs = [] then file
                          else Some \<lparr>contents = probs, mtime = now\<rparr>)))"
  by (auto simp: sync_species_probabilities_def height_def write_parquet_def
           split: option.splits sum.splits)


theorem sync_species_probabilities_policy_witness:
  "sync_species_probabilities unreachable ''7'' 172800000000
       (Some \<lparr>contents = example_probs_cache, mtime = 0\<rparr>)
     = Inr (example_probs_cache, Some \<lparr>contents = example_probs_cache, mtime = 0\<rparr>)
   \<and> sync_species_probabilities example_probabilities ''7'' 864000000000
       (Some \<lparr>contents = example_probs_cache, mtime = 0\<rparr>)
     = Inr (\<lparr>schema = probability_schema,
             rows = [\<lparr>p_speciesId = ''a'', p_commonName = ''Robin'', p_week = 0, p_probability = 1 / 2\<rparr>,
                     \<lparr>p_speciesId = ''a'', p_commonName = ''Robin'', p_week = 1, p_probability = 1 / 4\<rparr>]\<rparr>,
            Some \<lparr>contents = \<lparr>schema = probability_schema,
             rows = [\<lparr>p_speciesId = ''a'', p_commonName = ''Robin'', p_week = 0, p_probability = 1 / 2\<rparr>,
                     \<lparr>p_speciesId = ''a'', p_commonName = ''Robin'', p_week = 1, p_probability = 1 / 4\<rparr>]\<rparr>,
                  mtime = 864000000000\<rparr>)
   \<and> sync_species_probabilities no_probabilities ''7'' 864000000000
       (Some \<lparr>contents = example_probs_cache, mtime = 0\<rparr>)
     = Inr (\<lparr>schema = probability_schema, rows = []\<rparr>,
            Some \<lparr>contents = example_probs_cache, mtime = 0\<rparr>)"
proof -
  let ?f = "\<lparr>contents = example_probs_cache, mtime = 0\<rparr>"
  let ?new = "\<lparr>schema = probability_schema,
             rows = [\<lparr>p_speciesId = ''a'', p_commonName = ''Robin'', p_week = 0, p_probability = 1 / 2\<rparr>,
                     \<lparr>p_speciesId = ''a'', p_commonName = ''Robin'', p_week = 1, p_probability = 1 / 4\<rparr>]\<rparr>"
  have fresh: "172800000000 - mtime ?f < seven_days" by (simp add: seven_days_def)
  have stale: "seven_days \<le> 864000000000 - mtime ?f" by (simp add: seven_days_def)
  have g1: "get_species_probabilities example_probabilities ''7'' = Inr ?new"
    by code_simp
  have g2: "get_species_probabilities no_probabilities ''7'' = Inr \<lparr>schema = probability_schema, rows = []\<rparr>"
    by code_simp
  have a: "sync_species_probabilities unreachable ''7'' 172800000000 (Some ?f) = Inr (contents ?f, Some ?f)"
    using sync_species_probabilities_policy [of "Some ?f" 172800000000 "''7''"] fresh by blast
  have b: "sync_species_probabilities example_probabilities ''7'' 864000000000 (Some ?f)
             = Inr (?new, Some \<lparr>contents = ?new, mtime = 864000000000\<rparr>)"
    using sync_species_probabilities_policy [of "Some ?f" 864000000000 "''7''" example_probabilities] stale
    by (simp add: g1)
  have c: "sync_species_probabilities no_probabilities ''7'' 864000000000 (Some ?f)
             = Inr (\<lparr>schema = probability_schema, rows = []\<rparr>, Some ?f)"
    using sync_species_probabilities_policy [of "Some ?f" 864000000000 "''7''" no_probabilities] stale
    by (simp add: g2)
  from a b c show ?thesis by simp
qed

subsection \<open>Tables returned on an empty answer\<close>

lemma get_detections_empty_page:
  assumes "q \<lparr>var_id = station_id, var_first = page_size, var_after = None\<rparr> = Inr det"
      and "nodes det = []"
  shows "get_detections q station_id page_size max_pages stop_before earliest_dt
           = Inr \<lparr>schema = detections_empty_schema, rows = []\<rparr>"
  using assms
  by (cases "nat max_pages")
     (simp_all add: get_detections_def get_detections_traced_def truthy_def)

lemma get_environment_history_empty_page:
  assumes "q \<lparr>ev_id = station_id, ev_first = page_size, ev_after = None,
              ev_period = period_var period\<rparr> = Inr hist"
      and "nodes hist = []" and "\<not> hasNextPage hist"
  shows "get_environment_history q station_id period page_size max_pages
           = Inr \<lparr>schema = env_empty_schema, rows = []\<rparr>"
  using assms
  by (cases "nat max_pages") (simp_all add: get_environment_history_def truthy_def)

text \<open>
  Claim C10. When the remote listing of top species is empty, \<^verbatim>\<open>get_top_species\<close>
  returns a table with no rows and no columns. On an empty answer each of the other
  fetch functions returns a table with no rows and its explicitly typed columns:
  \<^verbatim>\<open>get_detections\<close> (nine columns), \<^verbatim>\<open>get_environment_history\<close> (eight),
  \<^verbatim>\<open>get_daily_detection_counts\<close> (six), \<^verbatim>\<open>get_time_of_day_counts\<close> (five) and
  \<^verbatim>\<open>get_species_probabilities\<close> (four).
\<close>

theorem empty_answer_schemas:
  "(qt \<lparr>tv_id = station_id, tv_limit = limit, tv_period = period_var period\<rparr> = Inr [] \<longrightarrow>
      get_top_species qt station_id period limit = Inr \<lparr>schema = [], rows = []\<rparr>)
   \<and> (\<forall>det. qd \<lparr>var_id = station_id, var_first = page_size, var_after = None\<rparr> = Inr det
          \<and> nodes det = [] \<longrightarrow>
        get_detections qd station_id page_size max_pages stop_before earliest_dt
          = Inr \<lparr>schema =
               [(''id'', Utf8), (''timestamp'', Utf8), (''speciesId'', Utf8),
                (''commonName'', Utf8), (''scientificName'', Utf8), (''confidence'', Float64),
                (''probability'', Float64), (''score'', Float64), (''certainty'', Utf8)],
             rows = []\<rparr>)
   \<and> (\<forall>hist. qe \<lparr>ev_id = station_id, ev_first = page_size, ev_after = None,
                  ev_period = period_var period\<rparr> = Inr hist
          \<and> nodes hist = [] \<and> \<not> hasNextPage hist \<longrightarrow>
        get_environment_history qe station_id period page_size max_pages
          = Inr \<lparr>schema =
               [(''timestamp'', Utf8), (''temperature'', Float64), (''humidity'', Float64),
                (''barometricPressure'', Float64), (''soundPressureLevel'', Float64),
                (''aqi'', Float64), (''eco2'', Float64), (''voc'', Float64)],
             rows = []\<rparr>)
   \<and> (qc ([station_id], period_var period) = Inr [] \<longrightarrow>
        get_daily_detection_counts qc station_id period
          = Inr \<lparr>schema =
               [(''date'', Utf8), (''dayOfYear'', Int64), (''dailyTotal'', Int64),
                (''speciesId'', Utf8), (''commonName'', Utf8), (''count'', Int64)],
             rows = []\<rparr>)
   \<and> (qh (station_id, period_var period) = Inr [] \<longrightarrow>
        get_time_of_day_counts qh station_id period
          = Inr \<lparr>schema =
               [(''speciesId'', Utf8), (''commonName'', Utf8), (''totalCount'', Int64),
                (''hour'', Float64), (''count'', Int64)],
             rows = []\<rparr>)
   \<and> (qp station_id = Inr [] \<longrightarrow>
        get_species_probabilities qp station_id
          = Inr \<lparr>schema =
               [(''speciesId'', Utf8), (''commonName'', Utf8), (''week'', Int64),
                (''probability'', Float64)],
             rows = []\<rparr>)"
proof -
  have top: "qt \<lparr>tv_id = station_id, tv_limit = limit, tv_period = period_var period\<rparr> = Inr [] \<Longrightarrow>
      get_top_species qt station_id period limit = Inr \<lparr>schema = [], rows = []\<rparr>"
    by (simp add: get_top_species_def frame_of_dicts_def)
  have daily: "qc ([station_id], period_var period) = Inr [] \<Longrightarrow>
        get_daily_detection_counts qc station_id period
          = Inr \<lparr>schema = daily_empty_schema, rows = []\<rparr>"
    by (simp add: get_daily_detection_counts_def daily_rows_of_def)
  have hourly: "qh (station_id, period_var period) = Inr [] \<Longrightarrow>
        get_time_of_day_counts qh station_id period = Inr \<lparr>schema = hourly_schema, rows = []\<rparr>"
    by (simp add: get_time_of_day_counts_def hourly_rows_of_def)
  have probs: "qp station_id = Inr [] \<Longrightarrow>
        get_species_probabilities qp station_id = Inr \<lparr>schema = probability_schema, rows = []\<rparr>"
    by (simp add: get_species_probabilities_def probability_rows_of_def)
  show ?thesis
    using top daily hourly probs
      get_detections_empty_page [of qd station_id page_size _ max_pages stop_before earliest_dt]
      get_environment_history_empty_page [of qe station_id page_size period _ max_pages]
    by (simp add: detections_empty_schema_def env_empty_schema_def daily_empty_schema_def
          hourly_schema_def probability_schema_def)
qed

theorem empty_answer_schemas_witness:
  "get_top_species (\<lambda>vars. Inr []) ''7'' None 100 = Inr \<lparr>schema = [], rows = []\<rparr>
   \<and> get_detections silent_station ''7'' 100 1000 None None
       = Inr \<lparr>schema = detections_empty_schema, rows = []\<rparr>
   \<and> get_environment_history (\<lambda>vars. Inr \<lparr>nodes = [], hasNextPage = False, endCursor = None\<rparr>)
         ''7'' None 100 1000
       = Inr \<lparr>schema = env_empty_schema, rows = []\<rparr>
   \<and> get_daily_detection_counts (\<lambda>vars. Inr []) ''7'' None
       = Inr \<lparr>schema = daily_empty_schema, rows = []\<rparr>
   \<and> get_time_of_day_counts (\<lambda>vars. Inr []) ''7'' None
       = Inr \<lparr>schema = hourly_schema, rows = []\<rparr>
   \<and> get_species_probabilities no_probabilities ''7''
       = Inr \<lparr>schema = probability_schema, rows = []\<rparr>"
  using empty_answer_schemas [of "\<lambda>vars. Inr []" "''7''" 100 None silent_station 100 1000 None None
      "\<lambda>vars. Inr \<lparr>nodes = [], hasNextPage = False, endCursor = None\<rparr>"
      "\<lambda>vars. Inr []" "\<lambda>vars. Inr []" no_probabilities]
  by (simp add: silent_station_def no_probabilities_def detections_empty_schema_def
        env_empty_schema_def daily_empty_schema_def hourly_schema_def probability_schema_def)

subsection \<open>Daily totals of \<^verbatim>\<open>compute_daily_detection_counts\<close>\<close>

lemma set_group_keys: "set (group_keys ks) = set ks"
  by (simp add: group_keys_def)

lemma distinct_group_keys: "distinct (group_keys ks)"
  by (simp add: group_keys_def)

lemma filter_eq_distinct: "distinct xs \<Longrightarrow> x \<in> set xs \<Longrightarrow> filter (\<lambda>y. y = x) xs = [x]"
  by (induction xs) (auto simp: filter_empty_conv)

lemma sum_list_map_insort_key:
  "sum_list (map f (insort_key k x xs)) = f x + sum_list (map f (xs :: 'a list) :: int list)"
  by (induction xs) auto

lemma sum_list_map_sort_key:
  "sum_list (map f (sort_key k xs)) = sum_list (map f (xs :: 'a list) :: int list)"
  by (induction xs) (auto simp: sum_list_map_insort_key)

lemma daily_totals_lookup:
  assumes "x \<in> set sd"
  shows "filter (\<lambda>t. fst t = fst (fst x)) (daily_totals sd) = [(fst (fst x), date_total sd (fst (fst x)))]"
proof -
  let ?ks = "group_keys (map (\<lambda>r. fst (fst r)) sd)"
  have "fst (fst x) \<in> set ?ks" using assms by (auto simp: set_group_keys)
  then have one: "filter (\<lambda>y. y = fst (fst x)) ?ks = [fst (fst x)]"
    by (intro filter_eq_distinct distinct_group_keys)
  have "filter (\<lambda>t. fst t = fst (fst x)) (daily_totals sd)
        = map (\<lambda>date. (date, date_total sd date)) (filter (\<lambda>y. y = fst (fst x)) ?ks)"
    by (simp add: daily_totals_def date_total_def filter_map comp_def)
  then show ?thesis by (simp add: one)
qed

lemma concat_map_singleton:
  "(\<And>x. x \<in> set xs \<Longrightarrow> f x = [g x]) \<Longrightarrow> concat (map f xs) = map g xs"
  by (induction xs) auto

lemma left_join_daily_totals:
  "left_join (\<lambda>r. fst (fst r)) fst sd (daily_totals sd)
     = map (\<lambda>x. (x, Some (fst (fst x), date_total sd (fst (fst x))))) sd"
  unfolding left_join_def
  by (rule concat_map_singleton) (simp add: daily_totals_lookup)

lemma daily_row_of_fun:
  "daily_row_of ordinal_day sd =
     (\<lambda>x. \<lparr>dc_date = fst (fst x), dc_dayOfYear = ordinal_day (fst (fst x)),
      dc_dailyTotal = Some (date_total sd (fst (fst x))),
      dc_speciesId = fst (snd (fst x)), dc_commonName = snd (snd (fst x)),
      dc_count = snd x\<rparr>)"
  by (rule ext) (simp add: daily_row_of_def)

lemma compute_daily_rows:
  "rows (compute_daily_detection_counts ordinal_day now detections period_days) =
     (let df = filter_period now period_days (rows detections)
      in sort_key (\<lambda>r. (dc_date r, dc_commonName r))
           (map (daily_row_of ordinal_day (species_daily df)) (species_daily df)))"
proof (cases "filter_period now period_days (rows detections) = []")
  case True
  then show ?thesis
    by (simp add: compute_daily_detection_counts_def height_def species_daily_def group_keys_def)
next
  case False
  then have "rows detections \<noteq> []"
    by (auto simp: filter_period_def split: option.splits)
  with False show ?thesis
    by (simp add: compute_daily_detection_counts_def height_def Let_def left_join_daily_totals
          daily_row_of_fun case_prod_beta comp_def)
qed

lemma sum_counts_of_date:
  "sum_list (map dc_count (filter (\<lambda>r'. dc_date r' = d)
      (sort_key k (map (daily_row_of ordinal_day sd) sd')))) = date_total sd' d"
proof -
  have "sum_list (map dc_count (filter (\<lambda>r'. dc_date r' = d)
          (sort_key k (map (daily_row_of ordinal_day sd) sd'))))
        = sum_list (map dc_count (filter (\<lambda>r'. dc_date r' = d) (map (daily_row_of ordinal_day sd) sd')))"
    by (simp add: filter_sort sum_list_map_sort_key)
  also have "\<dots> = date_total sd' d"
    by (simp add: filter_map comp_def daily_row_of_def date_total_def)
  finally show ?thesis .
qed

text \<open>
  Claim C7. For every detections table, period and clock: each row of the result of
  \<^verbatim>\<open>compute_daily_detection_counts\<close> carries as \<^verbatim>\<open>dailyTotal\<close> the sum of the
  \<^verbatim>\<open>count\<close> values of the result rows that have its date (and that value is not null).
\<close>

theorem daily_counts_sum:
  "\<forall>r \<in> set (rows (compute_daily_detection_counts ordinal_day now detections period_days)).
     dc_dailyTotal r =
       Some (sum_list (map dc_count (filter (\<lambda>r'. dc_date r' = dc_date r)
         (rows (compute_daily_detection_counts ordinal_day now detections period_days)))))"
proof
  fix r
  let ?sd = "species_daily (filter_period now period_days (rows detections))"
  assume "r \<in> set (rows (compute_daily_detection_counts ordinal_day now detections period_days))"
  then obtain x where "x \<in> set ?sd" and r: "r = daily_row_of ordinal_day ?sd x"
    by (auto simp: compute_daily_rows Let_def)
  have "dc_dailyTotal r = Some (date_total ?sd (dc_date r))"
    by (simp add: r daily_row_of_def)
  then show "dc_dailyTotal r =
       Some (sum_list (map dc_count (filter (\<lambda>r'. dc_date r' = dc_date r)
         (rows (compute_daily_detection_counts ordinal_day now detections period_days)))))"
    by (simp add: compute_daily_rows Let_def sum_counts_of_date)
qed


theorem daily_counts_sum_witness:
  "map (\<lambda>r. (dc_date r, dc_speciesId r, dc_count r, dc_dailyTotal r))
     (rows (compute_daily_detection_counts (\<lambda>d. d + 1) 200000000000
        (example_cache (map detection_of_node
           [example_node ''1'' 10 ''b'', example_node ''2'' 20 ''a'',
            example_node ''3'' 86400000001 ''a'', example_node ''4'' 30 ''a''])) None))
     = [(0, ''b'', 1, Some 3), (0, ''a'', 2, Some 3), (1, ''a'', 1, Some 1)]
   \<and> list_all (\<lambda>r. dc_dailyTotal r =
         Some (sum_list (map dc_count (filter (\<lambda>r'. dc_date r' = dc_date r)
           (rows (compute_daily_detection_counts (\<lambda>d. d + 1) 200000000000
              (example_cache (map detection_of_node
                 [example_node ''1'' 10 ''b'', example_node ''2'' 20 ''a'',
                  example_node ''3'' 86400000001 ''a'', example_node ''4'' 30 ''a''])) None))))))
       (rows (compute_daily_detection_counts (\<lambda>d. d + 1) 200000000000
          (example_cache (map detection_of_node
             [example_node ''1'' 10 ''b'', example_node ''2'' 20 ''a'',
              example_node ''3'' 86400000001 ''a'', example_node ''4'' 30 ''a''])) None))"
proof -
  let ?out = "rows (compute_daily_detection_counts (\<lambda>d. d + 1) 200000000000
        (example_cache (map detection_of_node
           [example_node ''1'' 10 ''b'', example_node ''2'' 20 ''a'',
            example_node ''3'' 86400000001 ''a'', example_node ''4'' 30 ''a''])) None)"
  have run: "map (\<lambda>r. (dc_date r, dc_speciesId r, dc_count r, dc_dailyTotal r)) ?out
     = [(0, ''b'', 1, Some 3), (0, ''a'', 2, Some 3), (1, ''a'', 1, Some 1)]"
    by code_simp
  have "list_all (\<lambda>r. dc_dailyTotal r =
         Some (sum_list (map dc_count (filter (\<lambda>r'. dc_date r' = dc_date r) ?out)))) ?out"
    using daily_counts_sum [of "\<lambda>d. d + 1" 200000000000
        "example_cache (map detection_of_node
           [example_node ''1'' 10 ''b'', example_node ''2'' 20 ''a'',
            example_node ''3'' 86400000001 ''a'', example_node ''4'' 30 ''a''])" None]
    unfolding list_all_iff .
  with run show ?thesis by (intro conjI)
qed

subsection \<open>Empty input of \<^verbatim>\<open>compute_top_species\<close>\<close>

text \<open>
  Claim C6. Applied to a detections table with no rows, \<^verbatim>\<open>compute_top_species\<close>
  returns, for every metadata table, period and limit, a table with no rows and the
  fourteen typed columns from \<^verbatim>\<open>speciesId\<close> to \<^verbatim>\<open>averageProbability\<close>.
\<close>

theorem compute_top_species_empty:
  assumes "rows detections = []"
  shows "compute_top_species now detections species_meta period_days limit =
     Inr \<lparr>schema =
            [(''speciesId'', Utf8), (''commonName'', Utf8), (''scientificName'', Utf8),
             (''imageUrl'', Utf8), (''thumbnailUrl'', Utf8), (''color'', Utf8),
             (''ebirdUrl'', Utf8), (''wikipediaSummary'', Utf8),
             (''count'', Int64), (''almostCertain'', Int64), (''veryLikely'', Int64),
             (''uncertain'', Int64), (''unlikely'', Int64), (''averageProbability'', Float64)],
          rows = []\<rparr>"
  using assms
  by (simp add: compute_top_species_def height_def top_species_empty_schema_def)

theorem compute_top_species_empty_witness:
  "rows \<lparr>schema = detections_empty_schema, rows = ([] :: detection list)\<rparr> = []
   \<and> compute_top_species 100 \<lparr>schema = detections_empty_schema, rows = []\<rparr>
        \<lparr>schema = [], rows = []\<rparr> (Some 7) 100
     = Inr \<lparr>schema = top_species_empty_schema, rows = []\<rparr>"
  using compute_top_species_empty [of "\<lparr>schema = detections_empty_schema, rows = []\<rparr>" 100
      "\<lparr>schema = [], rows = []\<rparr>" "Some 7" 100]
  by (simp add: top_species_empty_schema_def)

subsection \<open>Conflicts between bulk and residual metadata in \<^verbatim>\<open>sync_species_meta\<close>\<close>


















end
